theory Spec2Isabelle
  imports Main "HOL-Library.Sublist" "HOL-Library.Char_ord" "HOL-Library.List_Lexorder"
begin

section \<open>Go library functions the sources call\<close>

text \<open>
  Go strings are byte sequences, so a Go \<open>string\<close> is a \<^typ>\<open>string\<close> here (a list of
  8-bit characters). A Go \<open>error\<close> is kept as its message, because the sources only wrap
  errors with \<open>fmt.Errorf("...: %w", err)\<close> and print them with \<open>err.Error()\<close>.
\<close>

type_synonym error = string

text \<open>\<open>strings.Contains(s, substr)\<close>: \<open>substr\<close> occurs somewhere in \<open>s\<close>.\<close>

fun strings_Contains :: "string \<Rightarrow> string \<Rightarrow> bool" where
  "strings_Contains [] substr = (substr = [])"
| "strings_Contains (c # cs) substr = (prefix substr (c # cs) \<or> strings_Contains cs substr)"

text \<open>\<open>strings.HasPrefix(s, p)\<close>.\<close>

definition strings_HasPrefix :: "string \<Rightarrow> string \<Rightarrow> bool" where
  "strings_HasPrefix s p = prefix p s"

text \<open>
  \<open>strings.ReplaceAll(s, old, new)\<close>: the non-overlapping occurrences of \<open>old\<close> are
  replaced from left to right. For an empty \<open>old\<close> Go inserts \<open>new\<close> before every
  UTF-8 sequence and at the end; the equation below does that per byte, which is the same
  on ASCII input (the sources never pass an empty \<open>old\<close>).
\<close>

function strings_ReplaceAll :: "string \<Rightarrow> string \<Rightarrow> string \<Rightarrow> string" where
  "strings_ReplaceAll [] old new = (if old = [] then new else [])"
| "strings_ReplaceAll (c # cs) old new =
     (if old = [] then new @ c # strings_ReplaceAll cs old new
      else if prefix old (c # cs)
        then new @ strings_ReplaceAll (drop (length old) (c # cs)) old new
      else c # strings_ReplaceAll cs old new)"
  by pat_completeness auto
termination
  by (relation "measure (\<lambda>(s, old, new). length s)") (auto simp: neq_Nil_conv)

text \<open>
  \<open>strconv.Atoi(s)\<close>: an optional sign followed by at least one decimal digit, and the
  value must fit Go's \<open>int\<close> (64 bits on the platforms the agent is built for);
  anything else is an error (\<open>None\<close>).
\<close>

definition isDigit :: "char \<Rightarrow> bool" where
  "isDigit c = (48 \<le> (of_char c :: nat) \<and> (of_char c :: nat) \<le> 57)"

definition digitsValue :: "string \<Rightarrow> int" where
  "digitsValue ds = foldl (\<lambda>n c. n * 10 + (int (of_char c) - 48)) 0 ds"

definition strconv_Atoi :: "string \<Rightarrow> int option" where
  "strconv_Atoi s =
     (let neg = (s \<noteq> [] \<and> hd s = CHR ''-'');
          ds = (if s \<noteq> [] \<and> (hd s = CHR ''-'' \<or> hd s = CHR ''+'') then tl s else s)
      in if ds = [] \<or> \<not> list_all isDigit ds then None
         else let v = (if neg then - digitsValue ds else digitsValue ds)
              in if - (2 ^ 63) \<le> v \<and> v < 2 ^ 63 then Some v else None)"

text \<open>
  \<open>strings.Fields(s)\<close>: the maximal runs of non-space bytes. The white space is Go's ASCII
  set (tab, line feed, vertical tab, form feed, carriage return, space); the Unicode spaces
  beyond ASCII that Go also splits on are not modelled.
\<close>

definition isSpace :: "char \<Rightarrow> bool" where
  "isSpace c = ((of_char c :: nat) \<in> {9, 10, 11, 12, 13, 32})"

fun fields_from :: "string \<Rightarrow> string \<Rightarrow> string list" where
  "fields_from cur [] = (if cur = [] then [] else [cur])"
| "fields_from cur (c # cs) =
     (if isSpace c then (if cur = [] then fields_from [] cs else cur # fields_from [] cs)
      else fields_from (cur @ [c]) cs)"

definition strings_Fields :: "string \<Rightarrow> string list" where
  "strings_Fields s = fields_from [] s"

text \<open>
  \<open>bufio.Scanner\<close> with the default \<open>ScanLines\<close> split: the lines of the data, without the
  line feed and without one trailing carriage return; a last line with no line feed is
  returned when it is not empty. (The scanner's limit of 64 KiB per line is not modelled:
  a longer line ends the scan, which the caller then reports as "not found".)
\<close>

definition dropCR :: "string \<Rightarrow> string" where
  "dropCR l = (if l \<noteq> [] \<and> last l = CHR 0x0D then butlast l else l)"

fun scan_from :: "string \<Rightarrow> string \<Rightarrow> string list" where
  "scan_from cur [] = (if cur = [] then [] else [dropCR cur])"
| "scan_from cur (c # cs) =
     (if c = CHR 0x0A then dropCR cur # scan_from [] cs else scan_from (cur @ [c]) cs)"

definition bufio_ScanLines :: "string \<Rightarrow> string list" where
  "bufio_ScanLines data = scan_from [] data"

text \<open>
  \<open>filepath.Join(elem...)\<close> on Unix: empty elements are ignored, the others are joined with
  a slash and the result is cleaned lexically (\<open>filepath.Clean\<close>: doubled slashes and
  \<open>.\<close> elements go, \<open>..\<close> removes the element before it, no trailing slash).
\<close>

fun split_from :: "char \<Rightarrow> string \<Rightarrow> string \<Rightarrow> string list" where
  "split_from sep cur [] = [cur]"
| "split_from sep cur (c # cs) =
     (if c = sep then cur # split_from sep [] cs else split_from sep (cur @ [c]) cs)"

definition clean_push :: "bool \<Rightarrow> string list \<Rightarrow> string \<Rightarrow> string list" where
  "clean_push rooted st c =
     (if c = [] \<or> c = ''.'' then st
      else if c = ''..'' then
        (case st of
           [] \<Rightarrow> if rooted then [] else [''..'']
         | t # ts \<Rightarrow> if t = ''..'' then ''..'' # st else ts)
      else c # st)"

fun join_slash :: "string list \<Rightarrow> string" where
  "join_slash [] = []"
| "join_slash [x] = x"
| "join_slash (x # y # ys) = x @ ''/'' @ join_slash (y # ys)"

definition filepath_Clean :: "string \<Rightarrow> string" where
  "filepath_Clean p =
     (if p = [] then ''.''
      else let rooted = (hd p = CHR ''/'');
               body = join_slash (rev (foldl (clean_push rooted) [] (split_from (CHR ''/'') [] p)))
           in if rooted then ''/'' @ body else if body = [] then ''.'' else body)"

definition filepath_Join :: "string list \<Rightarrow> string" where
  "filepath_Join elem =
     (let parts = filter (\<lambda>e. e \<noteq> []) elem
      in if parts = [] then [] else filepath_Clean (join_slash parts))"



text \<open>
  \<open>os.ReadDir\<close> returns the entries of a directory sorted by file name, compared as byte
  strings (so \<open>"10"\<close> comes before \<open>"9"\<close>).
\<close>

definition sortByName :: "('a \<Rightarrow> string) \<Rightarrow> 'a list \<Rightarrow> 'a list" where
  "sortByName name es = sort_key name es"


section \<open>The node agent (\<open>cmd/mount-helper/main.go\<close>)\<close>

subsection \<open>Constants and messages\<close>

definition HostRootPath :: string where
  "HostRootPath = ''/host''"

definition WorkBasePath :: string where
  "WorkBasePath = ''/var/lib/stoppablecontainer''"

definition RequestFileName :: string where
  "RequestFileName = ''request.json''"

definition ReadyFileName :: string where
  "ReadyFileName = ''ready.json''"

definition RootfsMarkerEnv :: string where
  "RootfsMarkerEnv = ''ROOTFS_MARKER=true''"

record MountRequest =
  PodUID :: string
  Namespace :: string
  Name :: string

record MountResponse =
  Status :: string
  Message :: string

text \<open>
  \<open>encoding/json\<close> is not modelled byte by byte: decoding a request and encoding a response
  are parameters of the agent's functions. (\<open>json.Marshal\<close> cannot fail on a struct of two
  strings, so the encoder is a total function.)
\<close>

record encoding_json =
  Unmarshal_MountRequest :: "string \<Rightarrow> error + MountRequest"
  Marshal_MountResponse :: "MountResponse \<Rightarrow> string"

subsection \<open>The host as the agent sees it\<close>

text \<open>
  The state the agent reads and writes: the files and directories by path, the \<open>/proc\<close>
  directory (the kernel's listing of it, or the error of reading it, and per entry the
  contents of \<open>cgroup\<close> and \<open>environ\<close>, \<open>None\<close> when the file cannot be read), the
  \<open>/proc/<pid>/mounts\<close> file of each pid, the overlay mounts made so far, and the log of
  the mutating calls the agent has issued. Whether the operating system refuses a call is
  the host's choice too: \<open>os_fault\<close> gives the error of a mutating call, \<open>read_fault\<close> the
  error of reading a file, \<open>procDevSys_fault\<close> the error that mounting the kernel
  file systems below a rootfs directory ends with.
\<close>

datatype node = File string | Dir

datatype fsop =
    OpMkdirAll string
  | OpMount string string
  | OpRemove string
  | OpWriteFile string string

record proc_entry =
  entry_name :: string
  cgroup :: "string option"
  environ :: "string option"

record dirent =
  d_name :: string
  d_isDir :: bool

datatype readdir_result = DirEntries "dirent list" | DirNotExist | DirError error

record host =
  nodes :: "string \<rightharpoonup> node"
  proc_listing :: "error + proc_entry list"
  proc_mounts :: "int \<Rightarrow> error + string"
  work_listing :: readdir_result
  mounted :: "(string \<times> string) list"
  oplog :: "fsop list"
  os_fault :: "fsop \<Rightarrow> error option"
  read_fault :: "string \<Rightarrow> error option"
  procDevSys_fault :: "string \<Rightarrow> error option"

definition os_Stat :: "host \<Rightarrow> string \<Rightarrow> bool" where
  "os_Stat h p = (nodes h p \<noteq> None)"

definition os_ReadFile :: "host \<Rightarrow> string \<Rightarrow> error + string" where
  "os_ReadFile h p =
     (case read_fault h p of
        Some e \<Rightarrow> Inl e
      | None \<Rightarrow>
          (case nodes h p of
             None \<Rightarrow> Inl ''no such file or directory''
           | Some Dir \<Rightarrow> Inl ''is a directory''
           | Some (File d) \<Rightarrow> Inr d))"

definition os_MkdirAll :: "host \<Rightarrow> string \<Rightarrow> error option \<times> host" where
  "os_MkdirAll h p =
     (let h1 = h\<lparr>oplog := oplog h @ [OpMkdirAll p]\<rparr>
      in case os_fault h (OpMkdirAll p) of
           Some e \<Rightarrow> (Some e, h1)
         | None \<Rightarrow>
             (case nodes h p of
                Some (File d) \<Rightarrow> (Some ''not a directory'', h1)
              | _ \<Rightarrow> (None, h1\<lparr>nodes := (nodes h)(p \<mapsto> Dir)\<rparr>)))"

definition syscall_Mount_overlay :: "host \<Rightarrow> string \<Rightarrow> string \<Rightarrow> error option \<times> host" where
  "syscall_Mount_overlay h target options =
     (let h1 = h\<lparr>oplog := oplog h @ [OpMount target options]\<rparr>
      in case os_fault h (OpMount target options) of
           Some e \<Rightarrow> (Some e, h1)
         | None \<Rightarrow> (None, h1\<lparr>mounted := mounted h @ [(target, options)]\<rparr>))"

definition os_Remove :: "host \<Rightarrow> string \<Rightarrow> error option \<times> host" where
  "os_Remove h p =
     (let h1 = h\<lparr>oplog := oplog h @ [OpRemove p]\<rparr>
      in case os_fault h (OpRemove p) of
           Some e \<Rightarrow> (Some e, h1)
         | None \<Rightarrow>
             (case nodes h p of
                None \<Rightarrow> (Some ''no such file or directory'', h1)
              | Some n \<Rightarrow> (None, h1\<lparr>nodes := (nodes h)(p := None)\<rparr>)))"

definition os_WriteFile :: "host \<Rightarrow> string \<Rightarrow> string \<Rightarrow> error option \<times> host" where
  "os_WriteFile h p data =
     (let h1 = h\<lparr>oplog := oplog h @ [OpWriteFile p data]\<rparr>
      in case os_fault h (OpWriteFile p data) of
           Some e \<Rightarrow> (Some e, h1)
         | None \<Rightarrow>
             (case nodes h p of
                Some Dir \<Rightarrow> (Some ''is a directory'', h1)
              | _ \<Rightarrow> (None, h1\<lparr>nodes := (nodes h)(p \<mapsto> File data)\<rparr>)))"

subsection \<open>Phase A: \<open>findRootfsContainer\<close>\<close>

fun findRootfs_loop :: "string \<Rightarrow> proc_entry list \<Rightarrow> int option" where
  "findRootfs_loop podUIDCgroup [] = None"
| "findRootfs_loop podUIDCgroup (entry # entries) =
     (case strconv_Atoi (entry_name entry) of
        None \<Rightarrow> findRootfs_loop podUIDCgroup entries
      | Some pid \<Rightarrow>
          (case cgroup entry of
             None \<Rightarrow> findRootfs_loop podUIDCgroup entries
           | Some cgroupData \<Rightarrow>
               if \<not> strings_Contains cgroupData podUIDCgroup
               then findRootfs_loop podUIDCgroup entries
               else (case environ entry of
                       None \<Rightarrow> findRootfs_loop podUIDCgroup entries
                     | Some environData \<Rightarrow>
                         if strings_Contains environData RootfsMarkerEnv then Some pid
                         else findRootfs_loop podUIDCgroup entries)))"

text \<open>The test the loop applies to an entry, as one predicate.\<close>

definition rootfsMatch :: "string \<Rightarrow> proc_entry \<Rightarrow> bool" where
  "rootfsMatch podUIDCgroup e =
     (strconv_Atoi (entry_name e) \<noteq> None
      \<and> (case cgroup e of None \<Rightarrow> False | Some cg \<Rightarrow> strings_Contains cg podUIDCgroup)
      \<and> (case environ e of None \<Rightarrow> False
         | Some env \<Rightarrow> strings_Contains env RootfsMarkerEnv))"

definition findRootfsContainer :: "host \<Rightarrow> string \<Rightarrow> error + int" where
  "findRootfsContainer h podUID =
     (let podUIDCgroup = strings_ReplaceAll podUID ''-'' ''_''
      in case proc_listing h of
           Inl e \<Rightarrow> Inl (''failed to read /proc: '' @ e)
         | Inr listing \<Rightarrow>
             (case findRootfs_loop podUIDCgroup (sortByName entry_name listing) of
                Some pid \<Rightarrow> Inr pid
              | None \<Rightarrow> Inl (''rootfs container not found for pod '' @ podUID)))"

subsection \<open>Phase B: \<open>getOverlayfsOptions\<close>\<close>

fun overlay_scan :: "string list \<Rightarrow> error + string" where
  "overlay_scan [] = Inl ''overlayfs mount not found''"
| "overlay_scan (line # lines) =
     (if strings_HasPrefix line ''overlay / overlay '' then
        (let parts = strings_Fields line
         in if length parts \<ge> 4 then Inr (parts ! 3) else overlay_scan lines)
      else overlay_scan lines)"

definition getOverlayfsOptions :: "host \<Rightarrow> int \<Rightarrow> error + string" where
  "getOverlayfsOptions h pid =
     (case proc_mounts h pid of
        Inl e \<Rightarrow> Inl (''failed to open mounts: '' @ e)
      | Inr data \<Rightarrow> overlay_scan (bufio_ScanLines data))"

subsection \<open>Phase C: \<open>adjustPathsForHost\<close>\<close>

definition adjustPathsForHost :: "string \<Rightarrow> string" where
  "adjustPathsForHost opts =
     strings_ReplaceAll opts ''/var/lib/containerd'' (HostRootPath @ ''/var/lib/containerd'')"

subsection \<open>Phase D: \<open>mountOverlay\<close>\<close>

definition mountOverlay :: "host \<Rightarrow> string \<Rightarrow> string \<Rightarrow> error option \<times> host" where
  "mountOverlay h target options =
     (if \<not> strings_Contains options ''lowerdir='' \<or> \<not> strings_Contains options ''upperdir=''
      then (Some ''invalid overlay options: missing lowerdir or upperdir'', h)
      else (case syscall_Mount_overlay h target options of
              (Some e, h1) \<Rightarrow> (Some (''mount syscall failed: '' @ e), h1)
            | (None, h1) \<Rightarrow> (None, h1)))"

subsection \<open>Phase E: \<open>mountProcDevSys\<close>\<close>

text \<open>
  \<open>mountProcDevSys\<close> makes directories and mounts below the rootfs directory only and
  returns the joined errors; \<open>processRequest\<close> logs that error and goes on. The model
  keeps the error it returns and not the mounts below the rootfs.
\<close>

definition mountProcDevSys :: "host \<Rightarrow> string \<Rightarrow> error option" where
  "mountProcDevSys h rootfsDir =
     (case procDevSys_fault h rootfsDir of
        None \<Rightarrow> None
      | Some errs \<Rightarrow> Some (''mount errors: '' @ errs))"

subsection \<open>Phase F and the main loop: \<open>writeResponse\<close>, \<open>processRequest\<close>, \<open>scanAndProcessRequests\<close>\<close>

definition writeResponse ::
  "encoding_json \<Rightarrow> host \<Rightarrow> string \<Rightarrow> MountResponse \<Rightarrow> error option \<times> host" where
  "writeResponse j h workDir response =
     os_WriteFile h (filepath_Join [workDir, ReadyFileName]) (Marshal_MountResponse j response)"

definition processRequest ::
  "encoding_json \<Rightarrow> host \<Rightarrow> string \<Rightarrow> string \<Rightarrow> error option \<times> host" where
  "processRequest j h workDir requestFile =
     (case os_ReadFile h requestFile of
        Inl e \<Rightarrow> (Some (''failed to read request: '' @ e), h)
      | Inr data \<Rightarrow>
      (case Unmarshal_MountRequest j data of
         Inl e \<Rightarrow> (Some (''failed to parse request: '' @ e), h)
       | Inr request \<Rightarrow>
       (case findRootfsContainer h (PodUID request) of
          Inl e \<Rightarrow> (Some (''failed to find rootfs container: '' @ e), h)
        | Inr rootfsPID \<Rightarrow>
        (case getOverlayfsOptions h rootfsPID of
           Inl e \<Rightarrow> (Some (''failed to get overlayfs options: '' @ e), h)
         | Inr overlayOpts \<Rightarrow>
         (let rootfsDir = filepath_Join [workDir, ''rootfs'']
          in case os_MkdirAll h rootfsDir of
               (Some e, h1) \<Rightarrow> (Some (''failed to create rootfs dir: '' @ e), h1)
             | (None, h1) \<Rightarrow>
             (let overlayOptsHost = adjustPathsForHost overlayOpts
              in case mountOverlay h1 rootfsDir overlayOptsHost of
                   (Some e, h2) \<Rightarrow> (Some (''failed to mount overlay: '' @ e), h2)
                 | (None, h2) \<Rightarrow>
                 (let warning = mountProcDevSys h2 rootfsDir;
                      h3 = snd (os_Remove h2 requestFile);
                      h4 = snd (writeResponse j h3 workDir \<lparr>Status = ''ready'', Message = []\<rparr>)
                  in (None, h4))))))))"

text \<open>The body of the loop over the entries of the work directory.\<close>

definition processEntry :: "encoding_json \<Rightarrow> host \<Rightarrow> string \<Rightarrow> dirent \<Rightarrow> host" where
  "processEntry j h hostWorkBase entry =
     (if \<not> d_isDir entry then h
      else let workDir = filepath_Join [hostWorkBase, d_name entry];
               requestFile = filepath_Join [workDir, RequestFileName]
           in if \<not> os_Stat h requestFile then h
              else (case processRequest j h workDir requestFile of
                      (Some err, h1) \<Rightarrow>
                        snd (writeResponse j h1 workDir \<lparr>Status = ''error'', Message = err\<rparr>)
                    | (None, h1) \<Rightarrow> h1))"

fun processEntries :: "encoding_json \<Rightarrow> host \<Rightarrow> string \<Rightarrow> dirent list \<Rightarrow> host" where
  "processEntries j h hostWorkBase [] = h"
| "processEntries j h hostWorkBase (entry # entries) =
     processEntries j (processEntry j h hostWorkBase entry) hostWorkBase entries"

definition scanAndProcessRequests :: "encoding_json \<Rightarrow> host \<Rightarrow> error option \<times> host" where
  "scanAndProcessRequests j h =
     (let hostWorkBase = filepath_Join [HostRootPath, WorkBasePath]
      in case work_listing h of
           DirNotExist \<Rightarrow> (None, h)
         | DirError e \<Rightarrow> (Some (''failed to read work directory: '' @ e), h)
         | DirEntries entries \<Rightarrow>
             (None, processEntries j h hostWorkBase (sortByName d_name entries)))"

section \<open>Kubernetes objects\<close>

text \<open>
  The objects of the orchestrator's API, with the fields the sources read or write. A field
  group the sources only copy is kept as one opaque string (\<open>...Other\<close>), whose zero value is
  the empty string. A nil slice and an empty slice are both \<open>[]\<close>, a pointer is an option,
  a string-to-string map is a map.
\<close>

type_synonym key = "string \<times> string"

record Condition =
  condType :: string
  condStatus :: string
  condReason :: string
  condMessage :: string
  condObservedGeneration :: int

definition ConditionTrue :: string where "ConditionTrue = ''True''"
definition ConditionFalse :: string where "ConditionFalse = ''False''"
definition ConditionUnknown :: string where "ConditionUnknown = ''Unknown''"

text \<open>
  \<open>meta.FindStatusCondition\<close> and \<open>meta.SetStatusCondition\<close> of apimachinery: the first
  condition of the type is updated in place, or the new condition is appended. (The
  transition time, read from the clock, is left out of \<^typ>\<open>Condition\<close>.)
\<close>

fun FindStatusCondition :: "Condition list \<Rightarrow> string \<Rightarrow> Condition option" where
  "FindStatusCondition [] conditionType = None"
| "FindStatusCondition (c # cs) conditionType =
     (if condType c = conditionType then Some c else FindStatusCondition cs conditionType)"

fun SetStatusCondition :: "Condition list \<Rightarrow> Condition \<Rightarrow> Condition list" where
  "SetStatusCondition [] newCondition = [newCondition]"
| "SetStatusCondition (c # cs) newCondition =
     (if condType c = condType newCondition
      then c\<lparr>condStatus := condStatus newCondition,
             condReason := condReason newCondition,
             condMessage := condMessage newCondition,
             condObservedGeneration := condObservedGeneration newCondition\<rparr> # cs
      else c # SetStatusCondition cs newCondition)"

record OwnerReference =
  orAPIVersion :: string
  orKind :: string
  orName :: string
  orUID :: string
  orController :: "bool option"
  orBlockOwnerDeletion :: "bool option"

record ObjectMeta =
  metaName :: string
  metaNamespace :: string
  metaUID :: string
  metaLabels :: "string \<rightharpoonup> string"
  metaAnnotations :: "string \<rightharpoonup> string"
  metaOwnerReferences :: "OwnerReference list"
  metaGeneration :: int
  metaDeleting :: bool
  metaFinalizers :: "string list"

record EnvVar =
  envName :: string
  envValue :: string
  envOther :: string

record VolumeMount =
  vmName :: string
  vmMountPath :: string
  vmMountPropagation :: "string option"
  vmOther :: string

datatype VolumeSource =
    HostPathSource string string
  | EmptyDirSource
  | OtherSource string

record Volume =
  volName :: string
  volSource :: VolumeSource

record Capabilities =
  capAdd :: "string list"
  capDrop :: "string list"

record SecurityContext =
  scCapabilities :: "Capabilities option"
  scRunAsGroup :: "int option"
  scOther :: string

record Probe =
  probeExecCommand :: "string list"
  probeInitialDelaySeconds :: int
  probePeriodSeconds :: int
  probeOther :: string

record ResourceRequirements =
  resRequests :: "(string \<times> string) list"
  resLimits :: "(string \<times> string) list"

record Container =
  cName :: string
  cImage :: string
  cImagePullPolicy :: string
  cCommand :: "string list"
  cArgs :: "string list"
  cWorkingDir :: string
  cEnv :: "EnvVar list"
  cVolumeMounts :: "VolumeMount list"
  cSecurityContext :: "SecurityContext option"
  cReadinessProbe :: "Probe option"
  cResources :: ResourceRequirements
  cOther :: string

text \<open>The zero value of a Go \<open>corev1.Container\<close>.\<close>

definition zeroContainer :: Container where
  "zeroContainer =
     \<lparr>cName = [], cImage = [], cImagePullPolicy = [], cCommand = [], cArgs = [],
      cWorkingDir = [], cEnv = [], cVolumeMounts = [], cSecurityContext = None,
      cReadinessProbe = None, cResources = \<lparr>resRequests = [], resLimits = []\<rparr>, cOther = []\<rparr>"

record PodSpec =
  Containers :: "Container list"
  InitContainers :: "Container list"
  Volumes :: "Volume list"
  NodeName :: string
  RestartPolicy :: string
  specOther :: string

record PodCondition =
  pcType :: string
  pcStatus :: string

text \<open>A container state: the reason of \<open>State.Waiting\<close> and of \<open>State.Terminated\<close>, \<open>None\<close>
  when the pointer is nil.\<close>

record ContainerStatus =
  csWaitingReason :: "string option"
  csTerminatedReason :: "string option"

record PodStatus =
  psPhase :: string
  psConditions :: "PodCondition list"
  psMessage :: string
  psReason :: string
  psContainerStatuses :: "ContainerStatus list"

definition PodRunning :: string where "PodRunning = ''Running''"
definition PodFailed :: string where "PodFailed = ''Failed''"
definition PodReady :: string where "PodReady = ''Ready''"

definition zeroPodStatus :: PodStatus where
  "zeroPodStatus =
     \<lparr>psPhase = [], psConditions = [], psMessage = [], psReason = [], psContainerStatuses = []\<rparr>"

record Pod =
  podMeta :: ObjectMeta
  podSpec :: PodSpec
  podStatus :: PodStatus

section \<open>The API types (\<open>api/v1alpha1\<close>)\<close>

definition GroupVersion :: string where
  "GroupVersion = ''stoppablecontainer.xtlsoft.top/v1alpha1''"

text \<open>\<open>InstancePhase\<close> and \<open>Phase\<close> are string types in Go.\<close>

definition InstancePhasePending :: string where "InstancePhasePending = ''Pending''"
definition InstancePhaseProviderStarting :: string where
  "InstancePhaseProviderStarting = ''ProviderStarting''"
definition InstancePhaseProviderReady :: string where
  "InstancePhaseProviderReady = ''ProviderReady''"
definition InstancePhaseConsumerStarting :: string where
  "InstancePhaseConsumerStarting = ''ConsumerStarting''"
definition InstancePhaseRunning :: string where "InstancePhaseRunning = ''Running''"
definition InstancePhaseStopping :: string where "InstancePhaseStopping = ''Stopping''"
definition InstancePhaseStopped :: string where "InstancePhaseStopped = ''Stopped''"
definition InstancePhaseFailed :: string where "InstancePhaseFailed = ''Failed''"

definition PhasePending :: string where "PhasePending = ''Pending''"
definition PhaseProviderReady :: string where "PhaseProviderReady = ''ProviderReady''"
definition PhaseRunning :: string where "PhaseRunning = ''Running''"
definition PhaseStopped :: string where "PhaseStopped = ''Stopped''"
definition PhaseFailed :: string where "PhaseFailed = ''Failed''"

record PodTemplateSpec =
  tmplMetadata :: ObjectMeta
  tmplSpec :: PodSpec

record InstanceSpec =
  StoppableContainerName :: string
  Running :: bool
  Template :: PodTemplateSpec
  Provider :: string
  HostPathPrefix :: string

record InstanceStatus =
  Phase :: string
  ProviderPodName :: string
  ProviderPodUID :: string
  ConsumerPodName :: string
  ConsumerPodUID :: string
  HostPath :: string
  StatusNodeName :: string
  RootfsPID :: int
  StatusMessage :: string
  Conditions :: "Condition list"
  ObservedGeneration :: int

record Instance =
  sciMeta :: ObjectMeta
  sciSpec :: InstanceSpec
  sciStatus :: InstanceStatus

record WorkloadStatus =
  wPhase :: string
  wInstanceName :: string
  wProviderPodName :: string
  wConsumerPodName :: string
  wHostPath :: string
  wNodeName :: string
  wConditions :: "Condition list"
  wObservedGeneration :: int

record Workload =
  scMeta :: ObjectMeta
  scRunning :: bool
  scStatus :: WorkloadStatus

section \<open>The pod builders (\<open>internal/provider\<close>)\<close>

definition ConsumerContainerName :: string where "ConsumerContainerName = ''consumer''"
definition ExecWrapperInitName :: string where "ExecWrapperInitName = ''exec-wrapper-init''"
definition PropagatedVolumeName :: string where "PropagatedVolumeName = ''sc-propagated''"
definition ExecWrapperVolumeName :: string where "ExecWrapperVolumeName = ''sc-exec-wrapper''"
definition BinOverlayVolumeName :: string where "BinOverlayVolumeName = ''sc-bin-overlay''"
definition RootfsMountPath :: string where "RootfsMountPath = ''/rootfs''"
definition ExecWrapperBinPath :: string where "ExecWrapperBinPath = ''/.sc-bin''"
definition LabelManagedBy :: string where
  "LabelManagedBy = ''stoppablecontainer.xtlsoft.top/managed-by''"
definition LabelInstance :: string where
  "LabelInstance = ''stoppablecontainer.xtlsoft.top/instance''"
definition LabelRole :: string where
  "LabelRole = ''stoppablecontainer.xtlsoft.top/role''"
definition DefaultHostPathPrefix :: string where
  "DefaultHostPathPrefix = ''/var/lib/stoppablecontainer''"
definition MountPropagationHostToContainer :: string where
  "MountPropagationHostToContainer = ''HostToContainer''"
definition HostPathDirectory :: string where "HostPathDirectory = ''Directory''"
definition RestartPolicyAlways :: string where "RestartPolicyAlways = ''Always''"

text \<open>
  The package variables \<open>ExecWrapperImage\<close> and \<open>ExecWrapperPullPolicy\<close> are read from the
  environment when the operator starts (\<open>getEnvOrDefault\<close>); the builders take them as a
  configuration. The specification of the provider pod is a parameter too: the
  provider builder under \<open>src/\<close> reads the older template type, and the claims are about
  the name and the metadata of the provider pod only.
\<close>

definition getEnvOrDefault :: "(string \<rightharpoonup> string) \<Rightarrow> string \<Rightarrow> string \<Rightarrow> string" where
  "getEnvOrDefault env k defaultVal =
     (case env k of None \<Rightarrow> defaultVal | Some v \<Rightarrow> if v \<noteq> [] then v else defaultVal)"

record builder_config =
  ExecWrapperImage :: string
  ExecWrapperPullPolicy :: string
  ProviderPodSpec :: "Instance \<Rightarrow> PodSpec"

definition GetHostPath :: "Instance \<Rightarrow> string" where
  "GetHostPath sci =
     (let prefix = (if HostPathPrefix (sciSpec sci) = [] then DefaultHostPathPrefix
                    else HostPathPrefix (sciSpec sci))
      in filepath_Join [prefix, metaNamespace (sciMeta sci), metaName (sciMeta sci)])"

definition instanceOwnerReference :: "Instance \<Rightarrow> OwnerReference" where
  "instanceOwnerReference sci =
     \<lparr>orAPIVersion = GroupVersion, orKind = ''StoppableContainerInstance'',
      orName = metaName (sciMeta sci), orUID = metaUID (sciMeta sci),
      orController = Some True, orBlockOwnerDeletion = Some True\<rparr>"

subsection \<open>\<open>ProviderPodBuilder\<close>\<close>

definition ProviderPodBuilder_Build :: "builder_config \<Rightarrow> Instance \<Rightarrow> Pod" where
  "ProviderPodBuilder_Build cfg sci =
     \<lparr>podMeta =
        \<lparr>metaName = metaName (sciMeta sci) @ ''-provider'',
         metaNamespace = metaNamespace (sciMeta sci),
         metaUID = [],
         metaLabels = [LabelManagedBy \<mapsto> ''stoppablecontainer'',
                       LabelInstance \<mapsto> metaName (sciMeta sci),
                       LabelRole \<mapsto> ''provider''],
         metaAnnotations = Map.empty,
         metaOwnerReferences = [instanceOwnerReference sci],
         metaGeneration = 0,
         metaDeleting = False,
         metaFinalizers = []\<rparr>,
      podSpec = ProviderPodSpec cfg sci,
      podStatus = zeroPodStatus\<rparr>"

subsection \<open>\<open>ConsumerPodBuilder\<close>, on the embedded \<open>PodSpec\<close>\<close>

definition consumerPodName :: "Instance \<Rightarrow> string" where
  "consumerPodName sci = metaName (sciMeta sci)"

definition buildUserCommand :: "Container \<Rightarrow> string list" where
  "buildUserCommand container =
     (if length (cCommand container) = 0 \<and> length (cArgs container) = 0 then [''/bin/sh'']
      else cCommand container @ cArgs container)"

definition buildEntrypointCommand :: "string list \<Rightarrow> string \<Rightarrow> string list" where
  "buildEntrypointCommand userCommand workingDir =
     (let workingDir' = (if workingDir = [] then ''/'' else workingDir)
      in [''/sc-exec'', ''--entrypoint'', workingDir'] @ userCommand)"

definition buildVolumeMounts :: "VolumeMount list \<Rightarrow> VolumeMount list" where
  "buildVolumeMounts userMounts =
     [\<lparr>vmName = PropagatedVolumeName, vmMountPath = RootfsMountPath,
       vmMountPropagation = Some MountPropagationHostToContainer, vmOther = []\<rparr>,
      \<lparr>vmName = ExecWrapperVolumeName, vmMountPath = ExecWrapperBinPath,
       vmMountPropagation = None, vmOther = []\<rparr>,
      \<lparr>vmName = BinOverlayVolumeName, vmMountPath = ''/bin'',
       vmMountPropagation = None, vmOther = []\<rparr>]
     @ concat (map (\<lambda>m. [m\<lparr>vmName := ''user-'' @ vmName m\<rparr>,
                          m\<lparr>vmName := ''user-'' @ vmName m @ ''-rootfs'',
                            vmMountPath := RootfsMountPath @ vmMountPath m\<rparr>]) userMounts)"

definition buildVolumes :: "Volume list \<Rightarrow> string \<Rightarrow> string \<Rightarrow> Volume list" where
  "buildVolumes userVolumes hostPath hostPathType =
     [\<lparr>volName = PropagatedVolumeName, volSource = HostPathSource hostPath hostPathType\<rparr>,
      \<lparr>volName = ExecWrapperVolumeName, volSource = EmptyDirSource\<rparr>,
      \<lparr>volName = BinOverlayVolumeName, volSource = EmptyDirSource\<rparr>]
     @ concat (map (\<lambda>v. [v\<lparr>volName := ''user-'' @ volName v\<rparr>,
                          v\<lparr>volName := ''user-'' @ volName v @ ''-rootfs''\<rparr>]) userVolumes)"

text \<open>The loop that merges the user's capability additions without duplicates.\<close>

fun mergeCapabilities :: "string list \<Rightarrow> string list \<Rightarrow> string list" where
  "mergeCapabilities existing [] = existing"
| "mergeCapabilities existing (cap # caps) =
     (if cap \<in> set existing then mergeCapabilities existing caps
      else mergeCapabilities (existing @ [cap]) caps)"

definition buildSecurityContext :: "SecurityContext option \<Rightarrow> SecurityContext" where
  "buildSecurityContext userCtx =
     (let requiredCaps = [''SYS_CHROOT'']
      in case userCtx of
           None \<Rightarrow>
             \<lparr>scCapabilities = Some \<lparr>capAdd = requiredCaps, capDrop = []\<rparr>,
              scRunAsGroup = None, scOther = []\<rparr>
         | Some u \<Rightarrow>
             \<lparr>scCapabilities =
                Some \<lparr>capAdd = (case scCapabilities u of
                                  None \<Rightarrow> requiredCaps
                                | Some caps \<Rightarrow> mergeCapabilities requiredCaps (capAdd caps)),
                      capDrop = []\<rparr>,
              scRunAsGroup = scRunAsGroup u, scOther = []\<rparr>)"

definition buildLabels :: "Instance \<Rightarrow> (string \<rightharpoonup> string) \<Rightarrow> (string \<rightharpoonup> string)" where
  "buildLabels sci userLabels =
     userLabels(LabelManagedBy \<mapsto> ''stoppablecontainer'',
                LabelInstance \<mapsto> metaName (sciMeta sci),
                LabelRole \<mapsto> ''consumer'')"

definition buildAnnotations :: "(string \<rightharpoonup> string) \<Rightarrow> (string \<rightharpoonup> string)" where
  "buildAnnotations userAnnotations = userAnnotations"

definition buildInitContainers :: "builder_config \<Rightarrow> Container list \<Rightarrow> Container list" where
  "buildInitContainers cfg userInitContainers =
     [zeroContainer
        \<lparr>cName := ExecWrapperInitName,
         cImage := ExecWrapperImage cfg,
         cImagePullPolicy := ExecWrapperPullPolicy cfg,
         cCommand := [''/sc-exec'', ''--init'', ''/sc-bin-overlay''],
         cVolumeMounts :=
           [\<lparr>vmName = ExecWrapperVolumeName, vmMountPath = ExecWrapperBinPath,
             vmMountPropagation = None, vmOther = []\<rparr>,
            \<lparr>vmName = BinOverlayVolumeName, vmMountPath = ''/sc-bin-overlay'',
             vmMountPropagation = None, vmOther = []\<rparr>],
         cResources :=
           \<lparr>resRequests = [(''cpu'', ''10m''), (''memory'', ''16Mi'')],
            resLimits = [(''cpu'', ''100m''), (''memory'', ''64Mi'')]\<rparr>\<rparr>]
     @ map (\<lambda>c. c\<lparr>cName := ''user-'' @ cName c,
                    cVolumeMounts := map (\<lambda>m. m\<lparr>vmName := ''user-'' @ vmName m\<rparr>)
                                         (cVolumeMounts c)\<rparr>) userInitContainers"

text \<open>
  \<open>Build\<close> has no error result in Go. The one way it could fail is the index expression
  \<open>podSpec.Containers[0]\<close>, which panics on an empty slice; the model makes that panic a
  value (\<open>Inl\<close>), so that "never fails" is a statement to prove.
\<close>

definition ConsumerPodBuilder_Build :: "builder_config \<Rightarrow> Instance \<Rightarrow> string \<Rightarrow> string + Pod" where
  "ConsumerPodBuilder_Build cfg sci nodeName =
     (let hostPath = filepath_Join [GetHostPath sci, ''rootfs''];
          hostPathType = HostPathDirectory;
          template = Template (sciSpec sci);
          podSpec0 = tmplSpec template;
          podSpec1 = (if length (Containers podSpec0) = 0
                      then podSpec0\<lparr>Containers :=
                             [zeroContainer\<lparr>cName := ConsumerContainerName,
                                             cImage := ''busybox:stable''\<rparr>]\<rparr>
                      else podSpec0)
      in case Containers podSpec1 of
           [] \<Rightarrow> Inl ''runtime error: index out of range [0] with length 0''
         | mainContainer0 # otherContainers \<Rightarrow>
             (let userCommand = buildUserCommand mainContainer0;
                  mainContainer =
                    mainContainer0
                      \<lparr>cVolumeMounts := buildVolumeMounts (cVolumeMounts mainContainer0),
                       cEnv := cEnv mainContainer0
                                 @ [\<lparr>envName = ''SC_ROOTFS'', envValue = RootfsMountPath,
                                     envOther = []\<rparr>],
                       cName := ConsumerContainerName,
                       cImage := ExecWrapperImage cfg,
                       cImagePullPolicy := ExecWrapperPullPolicy cfg,
                       cCommand := buildEntrypointCommand userCommand (cWorkingDir mainContainer0),
                       cArgs := [],
                       cSecurityContext :=
                         Some (buildSecurityContext (cSecurityContext mainContainer0)),
                       cReadinessProbe :=
                         Some \<lparr>probeExecCommand = [ExecWrapperBinPath @ ''/sc-exec'', ''--ready''],
                               probeInitialDelaySeconds = 1, probePeriodSeconds = 5,
                               probeOther = []\<rparr>\<rparr>;
                  podSpec2 =
                    podSpec1
                      \<lparr>Containers := mainContainer # otherContainers,
                       Volumes := buildVolumes (Volumes podSpec1) hostPath hostPathType,
                       InitContainers := buildInitContainers cfg (InitContainers podSpec1),
                       NodeName := nodeName,
                       RestartPolicy := RestartPolicyAlways\<rparr>
              in Inr \<lparr>podMeta =
                        \<lparr>metaName = consumerPodName sci,
                         metaNamespace = metaNamespace (sciMeta sci),
                         metaUID = [],
                         metaLabels = buildLabels sci (metaLabels (tmplMetadata template)),
                         metaAnnotations = buildAnnotations (metaAnnotations (tmplMetadata template)),
                         metaOwnerReferences = [instanceOwnerReference sci],
                         metaGeneration = 0,
                         metaDeleting = False,
                         metaFinalizers = []\<rparr>,
                      podSpec = podSpec2,
                      podStatus = zeroPodStatus\<rparr>))"

subsection \<open>\<open>ConsumerPodBuilder\<close>, the variant on the compact \<open>ContainerSpec\<close>\<close>



section \<open>The API client\<close>

text \<open>
  The cluster as the reconcilers see it through the client: the Instance objects and the
  pods by namespace and name, the write calls issued so far, and the API server's choice
  to refuse a call (\<open>api_fault\<close>, the message of a time-out, a conflict or a rejected
  admission; such an error is neither "not found" nor "already exists").
  \<open>Delete\<close> removes the pod at once (no grace period), as the fake client of
  controller-runtime does. \<open>Update\<close> writes metadata and spec, \<open>Status().Update\<close> the
  status, since the status is a subresource.
\<close>

datatype api_error = IsNotFound | IsAlreadyExists | OtherAPIError string

datatype api_call =
    GetInstance key
  | UpdateInstance key
  | UpdateInstanceStatus key
  | GetPod key
  | CreatePod key
  | DeletePod key

datatype api_write =
    WroteInstance Instance
  | WroteInstanceStatus Instance
  | WrotePod Pod
  | WroteDeletePod key

record cluster =
  instances :: "key \<rightharpoonup> Instance"
  pods :: "key \<rightharpoonup> Pod"
  writes :: "api_write list"
  api_fault :: "api_call \<Rightarrow> string option"

definition instanceKey :: "Instance \<Rightarrow> key" where
  "instanceKey sci = (metaNamespace (sciMeta sci), metaName (sciMeta sci))"

definition podKey :: "Pod \<Rightarrow> key" where
  "podKey pod = (metaNamespace (podMeta pod), metaName (podMeta pod))"

definition client_GetInstance :: "cluster \<Rightarrow> key \<Rightarrow> api_error + Instance" where
  "client_GetInstance c k =
     (case api_fault c (GetInstance k) of
        Some e \<Rightarrow> Inl (OtherAPIError e)
      | None \<Rightarrow> (case instances c k of None \<Rightarrow> Inl IsNotFound | Some sci \<Rightarrow> Inr sci))"

definition client_GetPod :: "cluster \<Rightarrow> key \<Rightarrow> api_error + Pod" where
  "client_GetPod c k =
     (case api_fault c (GetPod k) of
        Some e \<Rightarrow> Inl (OtherAPIError e)
      | None \<Rightarrow> (case pods c k of None \<Rightarrow> Inl IsNotFound | Some pod \<Rightarrow> Inr pod))"

definition client_Update :: "cluster \<Rightarrow> Instance \<Rightarrow> api_error option \<times> cluster" where
  "client_Update c sci =
     (let c1 = c\<lparr>writes := writes c @ [WroteInstance sci]\<rparr>
      in case api_fault c (UpdateInstance (instanceKey sci)) of
           Some e \<Rightarrow> (Some (OtherAPIError e), c1)
         | None \<Rightarrow>
             (case instances c (instanceKey sci) of
                None \<Rightarrow> (Some IsNotFound, c1)
              | Some stored \<Rightarrow>
                  (None, c1\<lparr>instances := (instances c)
                              (instanceKey sci \<mapsto> sci\<lparr>sciStatus := sciStatus stored\<rparr>)\<rparr>)))"

definition client_StatusUpdate :: "cluster \<Rightarrow> Instance \<Rightarrow> api_error option \<times> cluster" where
  "client_StatusUpdate c sci =
     (let c1 = c\<lparr>writes := writes c @ [WroteInstanceStatus sci]\<rparr>
      in case api_fault c (UpdateInstanceStatus (instanceKey sci)) of
           Some e \<Rightarrow> (Some (OtherAPIError e), c1)
         | None \<Rightarrow>
             (case instances c (instanceKey sci) of
                None \<Rightarrow> (Some IsNotFound, c1)
              | Some stored \<Rightarrow>
                  (None, c1\<lparr>instances := (instances c)
                              (instanceKey sci \<mapsto> stored\<lparr>sciStatus := sciStatus sci\<rparr>)\<rparr>)))"

definition client_Create :: "cluster \<Rightarrow> Pod \<Rightarrow> api_error option \<times> cluster" where
  "client_Create c pod =
     (let c1 = c\<lparr>writes := writes c @ [WrotePod pod]\<rparr>
      in case api_fault c (CreatePod (podKey pod)) of
           Some e \<Rightarrow> (Some (OtherAPIError e), c1)
         | None \<Rightarrow>
             (case pods c (podKey pod) of
                Some existing \<Rightarrow> (Some IsAlreadyExists, c1)
              | None \<Rightarrow> (None, c1\<lparr>pods := (pods c)(podKey pod \<mapsto> pod)\<rparr>)))"

definition client_Delete :: "cluster \<Rightarrow> Pod \<Rightarrow> api_error option \<times> cluster" where
  "client_Delete c pod =
     (let c1 = c\<lparr>writes := writes c @ [WroteDeletePod (podKey pod)]\<rparr>
      in case api_fault c (DeletePod (podKey pod)) of
           Some e \<Rightarrow> (Some (OtherAPIError e), c1)
         | None \<Rightarrow>
             (case pods c (podKey pod) of
                None \<Rightarrow> (Some IsNotFound, c1)
              | Some existing \<Rightarrow> (None, c1\<lparr>pods := (pods c)(podKey pod := None)\<rparr>)))"

text \<open>\<open>ctrl.Result\<close>, with \<open>RequeueAfter\<close> in seconds.\<close>

record Result =
  Requeue :: bool
  RequeueAfter :: nat

definition noRequeue :: Result where
  "noRequeue = \<lparr>Requeue = False, RequeueAfter = 0\<rparr>"

section \<open>The Instance controller (\<open>internal/controller\<close>)\<close>

definition SCIFinalizerName :: string where
  "SCIFinalizerName = ''stoppablecontainerinstance.xtlsoft.top/finalizer''"

definition ConditionTypeReady :: string where
  "ConditionTypeReady = ''Ready''"

definition isPodReady :: "Pod \<Rightarrow> bool" where
  "isPodReady pod =
     (if psPhase (podStatus pod) \<noteq> PodRunning then False
      else list_ex (\<lambda>cond. pcType cond = PodReady \<and> pcStatus cond = ConditionTrue)
             (psConditions (podStatus pod)))"

definition isPodFailed :: "Pod \<Rightarrow> bool" where
  "isPodFailed pod = (psPhase (podStatus pod) = PodFailed)"

fun containerFailureReason :: "ContainerStatus list \<Rightarrow> string" where
  "containerFailureReason [] = ''Unknown''"
| "containerFailureReason (cs # rest) =
     (case csWaitingReason cs of
        Some reason \<Rightarrow>
          if reason \<noteq> [] then reason
          else (case csTerminatedReason cs of
                  Some reason' \<Rightarrow> if reason' \<noteq> [] then reason' else containerFailureReason rest
                | None \<Rightarrow> containerFailureReason rest)
      | None \<Rightarrow>
          (case csTerminatedReason cs of
             Some reason' \<Rightarrow> if reason' \<noteq> [] then reason' else containerFailureReason rest
           | None \<Rightarrow> containerFailureReason rest))"

definition getPodFailureReason :: "Pod \<Rightarrow> string" where
  "getPodFailureReason pod =
     (if psMessage (podStatus pod) \<noteq> [] then psMessage (podStatus pod)
      else if psReason (podStatus pod) \<noteq> [] then psReason (podStatus pod)
      else containerFailureReason (psContainerStatuses (podStatus pod)))"

text \<open>
  \<open>updatePhase\<close> changes the Instance it is given (a pointer in Go) and sends its status;
  the changed Instance is part of the result.
\<close>

definition updatePhase ::
  "cluster \<Rightarrow> Instance \<Rightarrow> string \<Rightarrow> string
     \<Rightarrow> (Result \<times> api_error option) \<times> Instance \<times> cluster" where
  "updatePhase c sci phase message =
     (let conditionStatus =
            (if phase = InstancePhaseRunning then ConditionTrue
             else if phase = InstancePhaseFailed then ConditionFalse
             else ConditionFalse);
          reason =
            (if phase = InstancePhaseRunning then ''Running''
             else if phase = InstancePhaseFailed then ''Failed''
             else phase);
          sci1 = sci\<lparr>sciStatus := (sciStatus sci)
                   \<lparr>Phase := phase,
                    StatusMessage := message,
                    ObservedGeneration := metaGeneration (sciMeta sci),
                    Conditions :=
                      SetStatusCondition (Conditions (sciStatus sci))
                        \<lparr>condType = ConditionTypeReady,
                         condStatus = conditionStatus,
                         condReason = reason,
                         condMessage = message,
                         condObservedGeneration = metaGeneration (sciMeta sci)\<rparr>\<rparr>\<rparr>
      in case client_StatusUpdate c sci1 of
           (Some err, c1) \<Rightarrow> ((noRequeue, Some err), sci1, c1)
         | (None, c1) \<Rightarrow>
             if phase \<noteq> InstancePhaseRunning \<and> phase \<noteq> InstancePhaseStopped
                  \<and> phase \<noteq> InstancePhaseFailed
             then ((\<lparr>Requeue = False, RequeueAfter = 2\<rparr>, None), sci1, c1)
             else ((noRequeue, None), sci1, c1))"

definition createProviderPod ::
  "builder_config \<Rightarrow> cluster \<Rightarrow> Instance \<Rightarrow> (Result \<times> api_error option) \<times> cluster" where
  "createProviderPod cfg c sci =
     (let pod = ProviderPodBuilder_Build cfg sci
      in case client_Create c pod of
           (Some err, c1) \<Rightarrow>
             if err = IsAlreadyExists then ((\<lparr>Requeue = True, RequeueAfter = 0\<rparr>, None), c1)
             else ((noRequeue, Some err), c1)
         | (None, c1) \<Rightarrow>
             (case updatePhase c1 sci InstancePhaseProviderStarting ''Provider pod created'' of
                (res, sci', c2) \<Rightarrow> (res, c2)))"

text \<open>A panic of the builder (see \<open>ConsumerPodBuilder_Build\<close>) is recovered by the
  controller runtime and surfaces as an error of the reconciliation.\<close>

definition createConsumerPod ::
  "builder_config \<Rightarrow> cluster \<Rightarrow> Instance \<Rightarrow> (Result \<times> api_error option) \<times> cluster" where
  "createConsumerPod cfg c sci =
     (if StatusNodeName (sciStatus sci) = [] then ((\<lparr>Requeue = False, RequeueAfter = 1\<rparr>, None), c)
      else case ConsumerPodBuilder_Build cfg sci (StatusNodeName (sciStatus sci)) of
             Inl panic \<Rightarrow> ((noRequeue, Some (OtherAPIError panic)), c)
           | Inr pod \<Rightarrow>
               (case client_Create c pod of
                  (Some err, c1) \<Rightarrow>
                    if err = IsAlreadyExists
                    then ((\<lparr>Requeue = True, RequeueAfter = 0\<rparr>, None), c1)
                    else ((noRequeue, Some err), c1)
                | (None, c1) \<Rightarrow>
                    (case updatePhase c1 sci InstancePhaseConsumerStarting
                            ''Consumer pod created'' of
                       (res, sci', c2) \<Rightarrow> (res, c2))))"

definition handleDeletion ::
  "cluster \<Rightarrow> Instance \<Rightarrow> (Result \<times> api_error option) \<times> cluster" where
  "handleDeletion c sci =
     (if SCIFinalizerName \<notin> set (metaFinalizers (sciMeta sci)) then ((noRequeue, None), c)
      else
        case client_GetPod c (metaNamespace (sciMeta sci), metaName (sciMeta sci) @ ''-consumer'') of
          Inr consumerPod \<Rightarrow>
            (case client_Delete c consumerPod of
               (Some err, c1) \<Rightarrow>
                 if err \<noteq> IsNotFound then ((noRequeue, Some err), c1)
                 else ((\<lparr>Requeue = False, RequeueAfter = 1\<rparr>, None), c1)
             | (None, c1) \<Rightarrow> ((\<lparr>Requeue = False, RequeueAfter = 1\<rparr>, None), c1))
        | Inl e1 \<Rightarrow>
            (case client_GetPod c
                    (metaNamespace (sciMeta sci), metaName (sciMeta sci) @ ''-provider'') of
               Inr providerPod \<Rightarrow>
                 (case client_Delete c providerPod of
                    (Some err, c1) \<Rightarrow>
                      if err \<noteq> IsNotFound then ((noRequeue, Some err), c1)
                      else ((\<lparr>Requeue = False, RequeueAfter = 1\<rparr>, None), c1)
                  | (None, c1) \<Rightarrow> ((\<lparr>Requeue = False, RequeueAfter = 1\<rparr>, None), c1))
             | Inl e2 \<Rightarrow>
                 (let sci1 = sci\<lparr>sciMeta := (sciMeta sci)
                               \<lparr>metaFinalizers :=
                                  filter (\<lambda>f. f \<noteq> SCIFinalizerName) (metaFinalizers (sciMeta sci))\<rparr>\<rparr>
                  in case client_Update c sci1 of
                       (Some err, c1) \<Rightarrow> ((noRequeue, Some err), c1)
                     | (None, c1) \<Rightarrow> ((noRequeue, None), c1))))"

text \<open>The names under which \<open>Reconcile\<close> looks the two pods up.\<close>

definition reconcile_providerPodName :: "Instance \<Rightarrow> key" where
  "reconcile_providerPodName sci =
     (metaNamespace (sciMeta sci), metaName (sciMeta sci) @ ''-provider'')"

definition reconcile_consumerPodName :: "Instance \<Rightarrow> key" where
  "reconcile_consumerPodName sci =
     (metaNamespace (sciMeta sci), metaName (sciMeta sci) @ ''-consumer'')"

text \<open>
  The pattern \<open>exists := true; if err := r.Get(...); err != nil { if errors.IsNotFound(err)
  { exists = false } else { return ..., err } }\<close>: the pod if there is one, \<open>None\<close> when
  it is not found, the error otherwise.
\<close>

definition getIfExists :: "api_error + Pod \<Rightarrow> api_error + Pod option" where
  "getIfExists r =
     (case r of
        Inr pod \<Rightarrow> Inr (Some pod)
      | Inl err \<Rightarrow> if err = IsNotFound then Inr None else Inl err)"

definition Reconcile ::
  "builder_config \<Rightarrow> cluster \<Rightarrow> key \<Rightarrow> (Result \<times> api_error option) \<times> cluster" where
  "Reconcile cfg c req =
     (case client_GetInstance c req of
        Inl err \<Rightarrow> if err = IsNotFound then ((noRequeue, None), c) else ((noRequeue, Some err), c)
      | Inr sci \<Rightarrow>
          if metaDeleting (sciMeta sci) then handleDeletion c sci
          else if SCIFinalizerName \<notin> set (metaFinalizers (sciMeta sci)) then
            (let sci1 = sci\<lparr>sciMeta := (sciMeta sci)
                          \<lparr>metaFinalizers := metaFinalizers (sciMeta sci) @ [SCIFinalizerName]\<rparr>\<rparr>
             in case client_Update c sci1 of
                  (Some err, c1) \<Rightarrow> ((noRequeue, Some err), c1)
                | (None, c1) \<Rightarrow> ((\<lparr>Requeue = True, RequeueAfter = 0\<rparr>, None), c1))
          else
            (case getIfExists (client_GetPod c (reconcile_providerPodName sci)) of
               Inl err \<Rightarrow> ((noRequeue, Some err), c)
             | Inr provider \<Rightarrow>
            (case getIfExists (client_GetPod c (reconcile_consumerPodName sci)) of
               Inl err \<Rightarrow> ((noRequeue, Some err), c)
             | Inr consumer \<Rightarrow>
            (case provider of
               None \<Rightarrow> createProviderPod cfg c sci
             | Some providerPod \<Rightarrow>
                 if \<not> isPodReady providerPod then
                   (case updatePhase c sci InstancePhaseProviderStarting
                           ''Waiting for provider pod to be ready'' of
                      (res, sci', c1) \<Rightarrow> (res, c1))
                 else
                   (let sci2 = sci\<lparr>sciStatus := (sciStatus sci)
                                 \<lparr>StatusNodeName := NodeName (podSpec providerPod),
                                  HostPath := filepath_Join [GetHostPath sci, ''rootfs''],
                                  ProviderPodName := metaName (podMeta providerPod),
                                  ProviderPodUID := metaUID (podMeta providerPod)\<rparr>\<rparr>
                    in if \<not> Running (sciSpec sci2) then
                         (case consumer of
                            Some consumerPod \<Rightarrow>
                              (case client_Delete c consumerPod of
                                 (Some err, c1) \<Rightarrow>
                                   if err \<noteq> IsNotFound then ((noRequeue, Some err), c1)
                                   else (case updatePhase c1 sci2 InstancePhaseStopping
                                                ''Stopping consumer pod'' of
                                           (res, sci', c2) \<Rightarrow> (res, c2))
                               | (None, c1) \<Rightarrow>
                                   (case updatePhase c1 sci2 InstancePhaseStopping
                                           ''Stopping consumer pod'' of
                                      (res, sci', c2) \<Rightarrow> (res, c2)))
                          | None \<Rightarrow>
                              (case updatePhase c sci2 InstancePhaseStopped
                                      ''Consumer stopped, provider maintaining filesystem'' of
                                 (res, sci', c1) \<Rightarrow> (res, c1)))
                       else
                         (case consumer of
                            None \<Rightarrow>
                              if StatusNodeName (sciStatus sci2) = [] then
                                (case updatePhase c sci2 InstancePhaseProviderReady
                                        ''Provider ready, waiting for node assignment'' of
                                   (res, sci', c1) \<Rightarrow> (res, c1))
                              else createConsumerPod cfg c sci2
                          | Some consumerPod \<Rightarrow>
                              (let sci3 = sci2\<lparr>sciStatus := (sciStatus sci2)
                                            \<lparr>ConsumerPodName := metaName (podMeta consumerPod),
                                             ConsumerPodUID := metaUID (podMeta consumerPod)\<rparr>\<rparr>
                               in if isPodFailed consumerPod then
                                    (case updatePhase c sci3 InstancePhaseFailed
                                            (''Consumer pod failed: ''
                                               @ getPodFailureReason consumerPod) of
                                       (res, sci', c1) \<Rightarrow> (res, c1))
                                  else if \<not> isPodReady consumerPod then
                                    (case updatePhase c sci3 InstancePhaseConsumerStarting
                                            ''Waiting for consumer pod to be ready'' of
                                       (res, sci', c1) \<Rightarrow> (res, c1))
                                  else
                                    (case updatePhase c sci3 InstancePhaseRunning
                                            ''All pods running'' of
                                       (res, sci', c1) \<Rightarrow> (res, c1)))))))))"

text \<open>The phases a step sent with \<open>Status().Update\<close>: those of the status writes that the
  step from \<open>c\<close> to \<open>c'\<close> added to the log.\<close>

fun phasesWritten :: "api_write list \<Rightarrow> string list" where
  "phasesWritten [] = []"
| "phasesWritten (WroteInstanceStatus sci # ws) = Phase (sciStatus sci) # phasesWritten ws"
| "phasesWritten (w # ws) = phasesWritten ws"

definition phasesSetBy :: "cluster \<Rightarrow> cluster \<Rightarrow> string list" where
  "phasesSetBy c c' = phasesWritten (drop (length (writes c)) (writes c'))"

section \<open>The Workload controller: \<open>updateStatusFromInstance\<close>\<close>

text \<open>
  \<open>updateStatusFromInstance\<close> changes the status of the Workload it is given and sends it
  with \<open>Status().Update\<close>; the outcome of that call is the parameter \<open>updateErr\<close>.
\<close>

definition updateStatusFromInstance ::
  "api_error option \<Rightarrow> Workload \<Rightarrow> Instance \<Rightarrow> (Result \<times> api_error option) \<times> Workload" where
  "updateStatusFromInstance updateErr sc sci =
     (let p = Phase (sciStatus sci);
          (phase, conditionStatus, reason, message) =
            (if p = InstancePhasePending \<or> p = InstancePhaseProviderStarting
               then (PhasePending, ConditionFalse, ''Pending'', ''Instance is starting up'')
             else if p = InstancePhaseProviderReady \<or> p = InstancePhaseConsumerStarting
               then (PhaseProviderReady, ConditionFalse, ''ProviderReady'',
                     ''Provider is ready, consumer is starting'')
             else if p = InstancePhaseRunning
               then (PhaseRunning, ConditionTrue, ''Running'', ''Container is running'')
             else if p = InstancePhaseStopping \<or> p = InstancePhaseStopped
               then (PhaseStopped, ConditionFalse, ''Stopped'',
                     ''Container is stopped, filesystem preserved'')
             else if p = InstancePhaseFailed
               then (PhaseFailed, ConditionFalse, ''Failed'', StatusMessage (sciStatus sci))
             else (PhasePending, ConditionUnknown, ''Unknown'', ''Unknown state''));
          sc1 = sc\<lparr>scStatus := (scStatus sc)
                  \<lparr>wPhase := phase,
                   wInstanceName := metaName (sciMeta sci),
                   wProviderPodName := ProviderPodName (sciStatus sci),
                   wConsumerPodName := ConsumerPodName (sciStatus sci),
                   wHostPath := HostPath (sciStatus sci),
                   wNodeName := StatusNodeName (sciStatus sci),
                   wObservedGeneration := metaGeneration (scMeta sc),
                   wConditions :=
                     SetStatusCondition (wConditions (scStatus sc))
                       \<lparr>condType = ConditionTypeReady,
                        condStatus = conditionStatus,
                        condReason = reason,
                        condMessage = message,
                        condObservedGeneration = metaGeneration (scMeta sc)\<rparr>\<rparr>\<rparr>
      in case updateErr of
           Some err \<Rightarrow> ((noRequeue, Some err), sc1)
         | None \<Rightarrow>
             if phase \<noteq> PhaseRunning \<and> phase \<noteq> PhaseStopped \<and> phase \<noteq> PhaseFailed
             then ((\<lparr>Requeue = False, RequeueAfter = 2\<rparr>, None), sc1)
             else ((noRequeue, None), sc1))"


section \<open>The specification's wording, for comparison\<close>





text \<open>
  The specification lets the lowest pid win among the processes that match; the pids of
  the matching entries of a \<open>/proc\<close> listing, and the least of them:
\<close>

definition spec_lowestMatchingPid :: "string \<Rightarrow> proc_entry list \<Rightarrow> int option" where
  "spec_lowestMatchingPid podUIDCgroup listing =
     (case List.map_filter
             (\<lambda>e. if rootfsMatch podUIDCgroup e then strconv_Atoi (entry_name e) else None) listing of
        [] \<Rightarrow> None
      | p # ps \<Rightarrow> Some (fold min ps p))"


section \<open>Concrete inputs\<close>

text \<open>A JSON coding for the two messages, good enough for the examples (no escaping).\<close>

definition quoted :: "string \<Rightarrow> string" where
  "quoted s = CHR 0x22 # s @ [CHR 0x22]"

definition example_json :: encoding_json where
  "example_json =
     \<lparr>Unmarshal_MountRequest =
        (\<lambda>data. if data = ''{'' @ quoted ''pod_uid'' @ '':'' @ quoted ''abc-1'' @ ''}''
                then Inr \<lparr>PodUID = ''abc-1'', Namespace = [], Name = []\<rparr>
                else Inl ''unexpected end of JSON input''),
      Marshal_MountResponse =
        (\<lambda>r. ''{'' @ quoted ''status'' @ '':'' @ quoted (Status r)
              @ (if Message r = [] then [] else '','' @ quoted ''message'' @ '':'' @ quoted (Message r))
              @ ''}'')\<rparr>"

text \<open>
  A node with two processes of the pod \<open>abc-1\<close> that carry the rootfs marker, pids 9 and
  10, and a pending request in the work directory \<open>demo\<close>.
\<close>

definition example_proc :: "proc_entry list" where
  "example_proc =
     [\<lparr>entry_name = ''9'', cgroup = Some ''0::/kubepods/pod_abc_1/x'',
       environ = Some ''ROOTFS_MARKER=true''\<rparr>,
      \<lparr>entry_name = ''10'', cgroup = Some ''0::/kubepods/pod_abc_1/y'',
       environ = Some ''ROOTFS_MARKER=true''\<rparr>,
      \<lparr>entry_name = ''self'', cgroup = None, environ = None\<rparr>]"

definition example_mounts :: string where
  "example_mounts =
     ''proc /proc proc rw,nosuid 0 0'' @ [CHR 0x0A]
     @ ''overlay / overlay rw,relatime,lowerdir=/var/lib/containerd/l1:/var/lib/containerd/l2,upperdir=/var/lib/containerd/u,workdir=/var/lib/containerd/w 0 0''
     @ [CHR 0x0A]"

definition example_host :: host where
  "example_host =
     \<lparr>nodes = [''/host/var/lib/stoppablecontainer/demo'' \<mapsto> Dir,
               ''/host/var/lib/stoppablecontainer/demo/request.json''
                  \<mapsto> File (''{'' @ quoted ''pod_uid'' @ '':'' @ quoted ''abc-1'' @ ''}'')],
      proc_listing = Inr example_proc,
      proc_mounts = (\<lambda>pid. if pid = 10 then Inr example_mounts
                           else Inl ''no such file or directory''),
      work_listing = DirEntries [\<lparr>d_name = ''demo'', d_isDir = True\<rparr>],
      mounted = [],
      oplog = [],
      os_fault = (\<lambda>call. None),
      read_fault = (\<lambda>path. None),
      procDevSys_fault = (\<lambda>dir. None)\<rparr>"


text \<open>The same node when the rootfs container's mounts file has no overlay line, and when
  the overlay line has no \<open>lowerdir=\<close>.\<close>

definition example_host_no_overlay :: host where
  "example_host_no_overlay =
     example_host\<lparr>proc_mounts := (\<lambda>pid. Inr (''proc /proc proc rw,nosuid 0 0'' @ [CHR 0x0A]))\<rparr>"

definition example_host_no_lowerdir :: host where
  "example_host_no_lowerdir =
     example_host\<lparr>proc_mounts :=
       (\<lambda>pid. Inr (''overlay / overlay rw,upperdir=/var/lib/containerd/u,workdir=/var/lib/containerd/w 0 0''
                    @ [CHR 0x0A]))\<rparr>"


text \<open>
  A cluster with the Instance \<open>default/demo\<close> (finalizer set, \<open>running = true\<close>) and its
  provider pod, Ready on \<open>node-1\<close>; the same cluster after one reconciliation, which
  creates the consumer pod; then with that consumer pod Ready; and then with the Instance
  switched to \<open>running = false\<close>.
\<close>

definition example_config :: builder_config where
  "example_config =
     \<lparr>ExecWrapperImage = ''ghcr.io/xtlsoft/stoppablecontainer-exec:latest'',
      ExecWrapperPullPolicy = ''IfNotPresent'',
      ProviderPodSpec =
        (\<lambda>sci. \<lparr>Containers = [], InitContainers = [], Volumes = [], NodeName = [],
                  RestartPolicy = RestartPolicyAlways, specOther = []\<rparr>)\<rparr>"

definition example_meta :: ObjectMeta where
  "example_meta =
     \<lparr>metaName = ''demo'', metaNamespace = ''default'', metaUID = ''uid-1'',
      metaLabels = Map.empty, metaAnnotations = Map.empty, metaOwnerReferences = [],
      metaGeneration = 1, metaDeleting = False, metaFinalizers = [SCIFinalizerName]\<rparr>"

definition example_template :: PodTemplateSpec where
  "example_template =
     \<lparr>tmplMetadata = example_meta\<lparr>metaName := [], metaNamespace := [], metaUID := [],
                                    metaGeneration := 0, metaFinalizers := []\<rparr>,
      tmplSpec = \<lparr>Containers = [zeroContainer
                                  \<lparr>cName := ''main'', cImage := ''busybox:stable'',
                                   cCommand := [''/bin/sh'', ''-c'', ''echo hi; sleep 3600'']\<rparr>],
                  InitContainers = [], Volumes = [], NodeName = [], RestartPolicy = [],
                  specOther = []\<rparr>\<rparr>"

definition example_status :: InstanceStatus where
  "example_status =
     \<lparr>Phase = [], ProviderPodName = [], ProviderPodUID = [], ConsumerPodName = [],
      ConsumerPodUID = [], HostPath = [], StatusNodeName = [], RootfsPID = 0,
      StatusMessage = [], Conditions = [], ObservedGeneration = 0\<rparr>"

definition example_instance :: Instance where
  "example_instance =
     \<lparr>sciMeta = example_meta,
      sciSpec = \<lparr>StoppableContainerName = ''demo'', Running = True, Template = example_template,
                 Provider = [], HostPathPrefix = []\<rparr>,
      sciStatus = example_status\<rparr>"


definition readyStatus :: PodStatus where
  "readyStatus =
     \<lparr>psPhase = PodRunning, psConditions = [\<lparr>pcType = PodReady, pcStatus = ConditionTrue\<rparr>],
      psMessage = [], psReason = [], psContainerStatuses = []\<rparr>"

definition example_provider_pod :: Pod where
  "example_provider_pod =
     (ProviderPodBuilder_Build example_config example_instance)
       \<lparr>podSpec := (ProviderPodSpec example_config example_instance)\<lparr>NodeName := ''node-1''\<rparr>,
        podStatus := readyStatus\<rparr>"

definition example_cluster :: cluster where
  "example_cluster =
     \<lparr>instances = [(''default'', ''demo'') \<mapsto> example_instance],
      pods = [(''default'', ''demo-provider'') \<mapsto> example_provider_pod],
      writes = [],
      api_fault = (\<lambda>call. None)\<rparr>"






text \<open>A Workload to project the Instance's status on.\<close>

definition example_workload :: Workload where
  "example_workload =
     \<lparr>scMeta = example_meta, scRunning = True,
      scStatus = \<lparr>wPhase = [], wInstanceName = [], wProviderPodName = [], wConsumerPodName = [],
                  wHostPath = [], wNodeName = [], wConditions = [], wObservedGeneration = 0\<rparr>\<rparr>"

definition instanceInPhase :: "string \<Rightarrow> Instance" where
  "instanceInPhase p =
     example_instance\<lparr>sciStatus := example_status\<lparr>Phase := p, StatusMessage := ''oops''\<rparr>\<rparr>"


section \<open>Properties of the node agent\<close>

subsection \<open>Substrings and replacement\<close>









subsection \<open>Paths below a work directory\<close>










subsection \<open>What the calls on the host change\<close>



lemma os_MkdirAll_effect:
  assumes "os_MkdirAll h p = (r, h')"
  shows "oplog h' = oplog h @ [OpMkdirAll p]"
    and "q \<noteq> p \<Longrightarrow> nodes h' q = nodes h q"
    and "os_fault h' = os_fault h"
    and "mounted h' = mounted h"
  using assms by (auto simp: os_MkdirAll_def Let_def split: option.splits node.splits)



lemma findRootfs_loop_first_match:
  "findRootfs_loop u es =
     (case filter (rootfsMatch u) es of [] \<Rightarrow> None | e # rest \<Rightarrow> strconv_Atoi (entry_name e))"
  by (induction es) (auto simp: rootfsMatch_def split: option.splits)

lemma overlay_scan_no_line:
  "(\<forall>line \<in> set ls. \<not> strings_HasPrefix line ''overlay / overlay '')
     \<Longrightarrow> overlay_scan ls = Inl ''overlayfs mount not found''"
  by (induction ls) simp_all


subsection \<open>Commit of a request (C2)\<close>



subsection \<open>Path adjustment (C3, C4)\<close>







subsection \<open>Finding the rootfs container (C5)\<close>

text \<open>
  C5, as amended. When \<open>/proc\<close> can be read, \<open>findRootfsContainer\<close> looks at the entries
  in the order of \<open>os.ReadDir\<close>, that is sorted by name as strings. An entry matches
  when its name is a number, its \<open>cgroup\<close> file contains the pod UID with dashes replaced by
  underscores, and its \<open>environ\<close> file contains the rootfs marker. With no matching entry
  the search fails with \<open>rootfs container not found for pod <uid>\<close>; otherwise it returns
  the pid of the first matching entry in that order (which is the lowest pid only when the
  names of the matching entries sort like their numbers).
\<close>

theorem findRootfsContainer_first_in_listing:
  assumes "proc_listing h = Inr listing"
  shows "(filter (rootfsMatch (strings_ReplaceAll podUID ''-'' ''_''))
            (sortByName entry_name listing) = []
            \<longrightarrow> findRootfsContainer h podUID
                  = Inl (''rootfs container not found for pod '' @ podUID))
       \<and> (\<forall>e rest. filter (rootfsMatch (strings_ReplaceAll podUID ''-'' ''_''))
                      (sortByName entry_name listing) = e # rest
            \<longrightarrow> e \<in> set listing
                \<and> rootfsMatch (strings_ReplaceAll podUID ''-'' ''_'') e
                \<and> (\<exists>pid. strconv_Atoi (entry_name e) = Some pid
                       \<and> findRootfsContainer h podUID = Inr pid))"
proof -
  let ?ms = "filter (rootfsMatch (strings_ReplaceAll podUID ''-'' ''_''))
               (sortByName entry_name listing)"
  have a: "findRootfsContainer h podUID = Inl (''rootfs container not found for pod '' @ podUID)"
    if "?ms = []"
    using assms that by (simp add: findRootfsContainer_def findRootfs_loop_first_match)
  have b: "e \<in> set listing \<and> rootfsMatch (strings_ReplaceAll podUID ''-'' ''_'') e
           \<and> (\<exists>pid. strconv_Atoi (entry_name e) = Some pid
                  \<and> findRootfsContainer h podUID = Inr pid)"
    if "?ms = e # rest" for e rest
  proof -
    have "e \<in> set ?ms" using that by simp
    then have m: "rootfsMatch (strings_ReplaceAll podUID ''-'' ''_'') e"
      and l: "e \<in> set listing"
      by (simp_all add: sortByName_def)
    from m obtain pid where p: "strconv_Atoi (entry_name e) = Some pid"
      by (auto simp: rootfsMatch_def)
    then have "findRootfsContainer h podUID = Inr pid"
      using assms that by (simp add: findRootfsContainer_def findRootfs_loop_first_match)
    with p m l show ?thesis by blast
  qed
  show ?thesis using a b by blast
qed

text \<open>The theorem at the example node, for a pod that has no process there.\<close>

theorem findRootfsContainer_first_in_listing_witness:
  "proc_listing example_host = Inr example_proc
   \<and> filter (rootfsMatch (strings_ReplaceAll ''zzz-9'' ''-'' ''_''))
        (sortByName entry_name example_proc) = []
   \<and> findRootfsContainer example_host ''zzz-9''
       = Inl (''rootfs container not found for pod '' @ ''zzz-9'')"
proof -
  have l: "proc_listing example_host = Inr example_proc" by (simp add: example_host_def)
  have n: "filter (rootfsMatch (strings_ReplaceAll ''zzz-9'' ''-'' ''_''))
        (sortByName entry_name example_proc) = []"
    by code_simp
  show ?thesis
    using l n findRootfsContainer_first_in_listing[OF l, of "''zzz-9''"] by blast
qed

text \<open>
  C5 as stated fails: with the matching pids 9 and 10 the listing has \<open>10\<close> before \<open>9\<close>,
  and the search returns 10, not the lowest pid.
\<close>

theorem findRootfsContainer_lowest_pid_counterexample:
  "findRootfsContainer example_host ''abc-1'' = Inr 10
   \<and> spec_lowestMatchingPid (strings_ReplaceAll ''abc-1'' ''-'' ''_'') example_proc = Some 9"
  by code_simp

subsection \<open>Checks before the overlay mount (C6)\<close>

text \<open>
  C6, as amended. \<open>mountOverlay\<close> fails, without issuing the mount, when the option string
  it is given has no \<open>lowerdir=\<close> or no \<open>upperdir=\<close> (it does not look for \<open>workdir=\<close>),
  and \<open>getOverlayfsOptions\<close> fails with \<open>overlayfs mount not found\<close> when no line of the
  mounts file begins with \<open>overlay / overlay \<close>. In \<open>processRequest\<close>, once the request is
  read and the rootfs container found: a failure of \<open>getOverlayfsOptions\<close> fails the
  request with the host untouched, and an adjusted option string without \<open>lowerdir=\<close> or
  \<open>upperdir=\<close> fails the request after the rootfs directory is made and with no mount
  issued.
\<close>

theorem overlay_recipe_checked_before_mount:
  "(\<not> strings_Contains options ''lowerdir='' \<or> \<not> strings_Contains options ''upperdir=''
      \<longrightarrow> mountOverlay h target options
            = (Some ''invalid overlay options: missing lowerdir or upperdir'', h))
   \<and> (proc_mounts h pid = Inr data
        \<and> (\<forall>line \<in> set (bufio_ScanLines data). \<not> strings_HasPrefix line ''overlay / overlay '')
      \<longrightarrow> getOverlayfsOptions h pid = Inl ''overlayfs mount not found'')
   \<and> (os_ReadFile h requestFile = Inr d \<and> Unmarshal_MountRequest j d = Inr request
        \<and> findRootfsContainer h (PodUID request) = Inr pid
      \<longrightarrow> (case getOverlayfsOptions h pid of
             Inl e \<Rightarrow> processRequest j h workDir requestFile
                        = (Some (''failed to get overlayfs options: '' @ e), h)
           | Inr overlayOpts \<Rightarrow>
               (\<not> strings_Contains (adjustPathsForHost overlayOpts) ''lowerdir=''
                  \<or> \<not> strings_Contains (adjustPathsForHost overlayOpts) ''upperdir=''
                \<longrightarrow> fst (processRequest j h workDir requestFile) \<noteq> None
                    \<and> oplog (snd (processRequest j h workDir requestFile))
                        = oplog h @ [OpMkdirAll (filepath_Join [workDir, ''rootfs''])]
                    \<and> mounted (snd (processRequest j h workDir requestFile)) = mounted h)))"
proof -
  have 1: "mountOverlay hh tt oo
            = (Some ''invalid overlay options: missing lowerdir or upperdir'', hh)"
    if "\<not> strings_Contains oo ''lowerdir='' \<or> \<not> strings_Contains oo ''upperdir=''"
    for hh tt oo
    using that by (auto simp: mountOverlay_def)
  have 2: "getOverlayfsOptions h pid = Inl ''overlayfs mount not found''"
    if "proc_mounts h pid = Inr data"
      "\<forall>line \<in> set (bufio_ScanLines data). \<not> strings_HasPrefix line ''overlay / overlay ''"
    using that overlay_scan_no_line by (simp add: getOverlayfsOptions_def)
  have 3: "case getOverlayfsOptions h pid of
             Inl e \<Rightarrow> processRequest j h workDir requestFile
                        = (Some (''failed to get overlayfs options: '' @ e), h)
           | Inr overlayOpts \<Rightarrow>
               (\<not> strings_Contains (adjustPathsForHost overlayOpts) ''lowerdir=''
                  \<or> \<not> strings_Contains (adjustPathsForHost overlayOpts) ''upperdir=''
                \<longrightarrow> fst (processRequest j h workDir requestFile) \<noteq> None
                    \<and> oplog (snd (processRequest j h workDir requestFile))
                        = oplog h @ [OpMkdirAll (filepath_Join [workDir, ''rootfs''])]
                    \<and> mounted (snd (processRequest j h workDir requestFile)) = mounted h)"
    if pre: "os_ReadFile h requestFile = Inr d" "Unmarshal_MountRequest j d = Inr request"
      "findRootfsContainer h (PodUID request) = Inr pid"
  proof (cases "getOverlayfsOptions h pid")
    case (Inl e)
    then show ?thesis using pre by (simp add: processRequest_def)
  next
    case (Inr overlayOpts)
    define R where "R = filepath_Join [workDir, ''rootfs'']"
    obtain r1 h1 where mk: "os_MkdirAll h R = (r1, h1)" by (cases "os_MkdirAll h R")
    note m = os_MkdirAll_effect[OF mk]
    have "fst (processRequest j h workDir requestFile) \<noteq> None
          \<and> snd (processRequest j h workDir requestFile) = h1"
      if bad: "\<not> strings_Contains (adjustPathsForHost overlayOpts) ''lowerdir=''
                 \<or> \<not> strings_Contains (adjustPathsForHost overlayOpts) ''upperdir=''"
    proof (cases r1)
      case None
      then show ?thesis
        using pre Inr mk 1[OF bad, of h1 R]
        by (simp add: processRequest_def R_def)
    next
      case (Some e)
      then show ?thesis
        using pre Inr mk by (simp add: processRequest_def R_def)
    qed
    then show ?thesis using Inr m(1) m(4) by (simp add: R_def)
  qed
  show ?thesis using 1[of options h target] 2 3 by blast
qed

text \<open>The theorem at the example nodes: an option string without \<open>lowerdir=\<close>, a mounts
  file without an overlay line, and a request whose overlay line has no \<open>lowerdir=\<close>.\<close>

theorem overlay_recipe_checked_before_mount_witness:
  "\<not> strings_Contains ''upperdir=/u,workdir=/w'' ''lowerdir=''
   \<and> mountOverlay example_host ''/t'' ''upperdir=/u,workdir=/w''
       = (Some ''invalid overlay options: missing lowerdir or upperdir'', example_host)
   \<and> getOverlayfsOptions example_host_no_overlay 10 = Inl ''overlayfs mount not found''
   \<and> fst (processRequest example_json example_host_no_lowerdir
             ''/host/var/lib/stoppablecontainer/demo''
             ''/host/var/lib/stoppablecontainer/demo/request.json'') \<noteq> None
   \<and> mounted (snd (processRequest example_json example_host_no_lowerdir
             ''/host/var/lib/stoppablecontainer/demo''
             ''/host/var/lib/stoppablecontainer/demo/request.json'')) = []"
proof -
  let ?rf = "''/host/var/lib/stoppablecontainer/demo/request.json''"
  let ?wd = "''/host/var/lib/stoppablecontainer/demo''"
  let ?d = "''{'' @ quoted ''pod_uid'' @ '':'' @ quoted ''abc-1'' @ ''}''"
  let ?req = "\<lparr>PodUID = ''abc-1'', Namespace = [], Name = []\<rparr>"
  let ?opts = "''rw,upperdir=/var/lib/containerd/u,workdir=/var/lib/containerd/w''"
  have a: "\<not> strings_Contains ''upperdir=/u,workdir=/w'' ''lowerdir=''" by simp
  have b1: "proc_mounts example_host_no_overlay 10
              = Inr (''proc /proc proc rw,nosuid 0 0'' @ [CHR 0x0A])"
    by (simp add: example_host_no_overlay_def)
  have b2: "\<forall>line \<in> set (bufio_ScanLines (''proc /proc proc rw,nosuid 0 0'' @ [CHR 0x0A])).
              \<not> strings_HasPrefix line ''overlay / overlay ''"
    by (simp add: bufio_ScanLines_def dropCR_def strings_HasPrefix_def)
  have c1: "os_ReadFile example_host_no_lowerdir ?rf = Inr ?d" by code_simp
  have c2: "Unmarshal_MountRequest example_json ?d = Inr ?req" by code_simp
  have c3: "findRootfsContainer example_host_no_lowerdir (PodUID ?req) = Inr 10" by code_simp
  have c4: "getOverlayfsOptions example_host_no_lowerdir 10 = Inr ?opts" by code_simp
  have c5: "\<not> strings_Contains (adjustPathsForHost ?opts) ''lowerdir=''" by code_simp
  have c6: "mounted example_host_no_lowerdir = []" by code_simp
  from overlay_recipe_checked_before_mount[of "''upperdir=/u,workdir=/w''" example_host "''/t''"
      10 "[]" "[]" "[]" example_json ?req "[]"] a
  have A: "mountOverlay example_host ''/t'' ''upperdir=/u,workdir=/w''
       = (Some ''invalid overlay options: missing lowerdir or upperdir'', example_host)"
    by blast
  from overlay_recipe_checked_before_mount[of "[]" example_host_no_overlay "[]"
      10 "''proc /proc proc rw,nosuid 0 0'' @ [CHR 0x0A]" "[]" "[]" example_json ?req "[]"] b1 b2
  have B: "getOverlayfsOptions example_host_no_overlay 10 = Inl ''overlayfs mount not found''"
    by blast
  from overlay_recipe_checked_before_mount[of "[]" example_host_no_lowerdir "[]"
      10 "[]" ?rf ?d example_json ?req ?wd] c1 c2 c3
  have "case getOverlayfsOptions example_host_no_lowerdir 10 of
             Inl e \<Rightarrow> processRequest example_json example_host_no_lowerdir ?wd ?rf
                        = (Some (''failed to get overlayfs options: '' @ e), example_host_no_lowerdir)
           | Inr overlayOpts \<Rightarrow>
               (\<not> strings_Contains (adjustPathsForHost overlayOpts) ''lowerdir=''
                  \<or> \<not> strings_Contains (adjustPathsForHost overlayOpts) ''upperdir=''
                \<longrightarrow> fst (processRequest example_json example_host_no_lowerdir ?wd ?rf) \<noteq> None
                    \<and> oplog (snd (processRequest example_json example_host_no_lowerdir ?wd ?rf))
                        = oplog example_host_no_lowerdir @ [OpMkdirAll (filepath_Join [?wd, ''rootfs''])]
                    \<and> mounted (snd (processRequest example_json example_host_no_lowerdir ?wd ?rf))
                        = mounted example_host_no_lowerdir)"
    by blast
  then have C: "fst (processRequest example_json example_host_no_lowerdir ?wd ?rf) \<noteq> None
      \<and> mounted (snd (processRequest example_json example_host_no_lowerdir ?wd ?rf)) = []"
    using c4 c5 c6 by simp
  show ?thesis using a A B C by blast
qed

text \<open>
  C6 as stated fails for \<open>workdir=\<close>: an option string with \<open>lowerdir=\<close> and \<open>upperdir=\<close>
  but no \<open>workdir=\<close> passes the agent's check, and the mount is issued.
\<close>

theorem overlay_workdir_unchecked_counterexample:
  "\<not> strings_Contains ''lowerdir=/l,upperdir=/u'' ''workdir=''
   \<and> fst (mountOverlay example_host ''/t'' ''lowerdir=/l,upperdir=/u'') = None
   \<and> oplog (snd (mountOverlay example_host ''/t'' ''lowerdir=/l,upperdir=/u''))
       = [OpMount ''/t'' ''lowerdir=/l,upperdir=/u'']"
  by code_simp


section \<open>Properties of the controllers and the pod builders\<close>

subsection \<open>Conditions\<close>

lemma Find_after_Set:
  "FindStatusCondition (SetStatusCondition cs n) (condType n) = Some n"
  by (induction cs) auto

lemma updatePhase_effect:
  assumes "updatePhase c sci phase message = (res, sci', c')"
  shows "Phase (sciStatus sci') = phase"
    and "writes c' = writes c @ [WroteInstanceStatus sci']"
    and "pods c' = pods c"
    and "FindStatusCondition (Conditions (sciStatus sci')) ConditionTypeReady
          = Some \<lparr>condType = ConditionTypeReady,
                  condStatus = (if phase = InstancePhaseRunning then ConditionTrue
                                else ConditionFalse),
                  condReason = (if phase = InstancePhaseRunning then ''Running''
                                else if phase = InstancePhaseFailed then ''Failed'' else phase),
                  condMessage = message,
                  condObservedGeneration = metaGeneration (sciMeta sci)\<rparr>"
proof -
  define n where "n = \<lparr>condType = ConditionTypeReady,
                  condStatus = (if phase = InstancePhaseRunning then ConditionTrue
                                else ConditionFalse),
                  condReason = (if phase = InstancePhaseRunning then ''Running''
                                else if phase = InstancePhaseFailed then ''Failed'' else phase),
                  condMessage = message,
                  condObservedGeneration = metaGeneration (sciMeta sci)\<rparr>"
  define sci1 where "sci1 = sci\<lparr>sciStatus := (sciStatus sci)
                   \<lparr>Phase := phase,
                    StatusMessage := message,
                    ObservedGeneration := metaGeneration (sciMeta sci),
                    Conditions := SetStatusCondition (Conditions (sciStatus sci)) n\<rparr>\<rparr>"
  have eq: "sci' = sci1 \<and> c' = snd (client_StatusUpdate c sci1)"
    using assms unfolding updatePhase_def Let_def sci1_def n_def
    by (auto split: prod.splits option.splits if_splits)
  have t: "condType n = ConditionTypeReady" by (simp add: n_def)
  show "Phase (sciStatus sci') = phase" using eq by (simp add: sci1_def)
  show "writes c' = writes c @ [WroteInstanceStatus sci']"
    using eq by (auto simp: client_StatusUpdate_def Let_def split: option.splits)
  show "pods c' = pods c"
    using eq by (auto simp: client_StatusUpdate_def Let_def split: option.splits)
  have "FindStatusCondition (Conditions (sciStatus sci1)) (condType n) = Some n"
    unfolding sci1_def by (simp add: Find_after_Set)
  then show "FindStatusCondition (Conditions (sciStatus sci')) ConditionTypeReady
          = Some \<lparr>condType = ConditionTypeReady,
                  condStatus = (if phase = InstancePhaseRunning then ConditionTrue
                                else ConditionFalse),
                  condReason = (if phase = InstancePhaseRunning then ''Running''
                                else if phase = InstancePhaseFailed then ''Failed'' else phase),
                  condMessage = message,
                  condObservedGeneration = metaGeneration (sciMeta sci)\<rparr>"
    using eq t unfolding n_def by simp
qed

subsection \<open>The writes of a reconciliation step\<close>

lemma phasesWritten_append: "phasesWritten (xs @ ys) = phasesWritten xs @ phasesWritten ys"
  by (induction xs rule: phasesWritten.induct) auto

lemma phasesSetBy_same: "phasesSetBy c c = []"
  by (simp add: phasesSetBy_def)

lemma writes_client:
  "writes (snd (client_Create c pod)) = writes c @ [WrotePod pod]"
  "writes (snd (client_Delete c pod)) = writes c @ [WroteDeletePod (podKey pod)]"
  "writes (snd (client_Update c sci)) = writes c @ [WroteInstance sci]"
  "writes (snd (client_StatusUpdate c sci)) = writes c @ [WroteInstanceStatus sci]"
  by (auto simp: client_Create_def client_Delete_def client_Update_def client_StatusUpdate_def
        Let_def split: option.splits)

lemma updatePhase_writes:
  "\<exists>s. Phase (sciStatus s) = phase
      \<and> writes (snd (snd (updatePhase c sci phase m))) = writes c @ [WroteInstanceStatus s]"
  using updatePhase_effect(1,2)[of c sci phase m]
  by (cases "updatePhase c sci phase m") auto

lemma updatePhase_not_Stopped:
  assumes "phase \<noteq> InstancePhaseStopped"
  shows "InstancePhaseStopped \<notin> set (phasesSetBy c (snd (snd (updatePhase c sci phase m))))"
  using updatePhase_writes[of phase c sci m] assms by (auto simp: phasesSetBy_def)

lemma updatePhase_later_not_Stopped:
  assumes "phase \<noteq> InstancePhaseStopped" "writes c1 = writes c @ ws"
    "InstancePhaseStopped \<notin> set (phasesWritten ws)"
  shows "InstancePhaseStopped \<notin> set (phasesSetBy c (snd (snd (updatePhase c1 sci phase m))))"
  using updatePhase_writes[of phase c1 sci m] assms
  by (auto simp: phasesSetBy_def phasesWritten_append)

lemma createProviderPod_not_Stopped:
  "InstancePhaseStopped \<notin> set (phasesSetBy c (snd (createProviderPod cfg c sci)))"
proof -
  let ?pod = "ProviderPodBuilder_Build cfg sci"
  obtain r c1 where cr: "client_Create c ?pod = (r, c1)" by (cases "client_Create c ?pod")
  have w: "writes c1 = writes c @ [WrotePod ?pod]" using writes_client(1)[of c ?pod] cr by simp
  have ne: "InstancePhaseProviderStarting \<noteq> InstancePhaseStopped"
    by (simp add: InstancePhaseProviderStarting_def InstancePhaseStopped_def)
  show ?thesis
  proof (cases r)
    case None
    then show ?thesis
      using cr updatePhase_later_not_Stopped[OF ne w, of sci "''Provider pod created''"]
      by (simp add: createProviderPod_def Let_def split_beta)
  next
    case (Some e)
    then show ?thesis using cr w by (simp add: createProviderPod_def Let_def phasesSetBy_def)
  qed
qed

lemma createConsumerPod_not_Stopped:
  "InstancePhaseStopped \<notin> set (phasesSetBy c (snd (createConsumerPod cfg c sci)))"
proof (cases "StatusNodeName (sciStatus sci) = []")
  case True
  then show ?thesis by (simp add: createConsumerPod_def phasesSetBy_def)
next
  case False
  show ?thesis
  proof (cases "ConsumerPodBuilder_Build cfg sci (StatusNodeName (sciStatus sci))")
    case (Inl a)
    then show ?thesis using False by (simp add: createConsumerPod_def phasesSetBy_def)
  next
    case (Inr pod)
    obtain r c1 where cr: "client_Create c pod = (r, c1)" by (cases "client_Create c pod")
    have w: "writes c1 = writes c @ [WrotePod pod]" using writes_client(1)[of c pod] cr by simp
    have ne: "InstancePhaseConsumerStarting \<noteq> InstancePhaseStopped"
      by (simp add: InstancePhaseConsumerStarting_def InstancePhaseStopped_def)
    show ?thesis
    proof (cases r)
      case None
      then show ?thesis
        using False Inr cr
          updatePhase_later_not_Stopped[OF ne w, of sci "''Consumer pod created''"]
        by (simp add: createConsumerPod_def Let_def split_beta)
    next
      case (Some e)
      then show ?thesis
        using False Inr cr w by (simp add: createConsumerPod_def Let_def phasesSetBy_def)
    qed
  qed
qed

lemma handleDeletion_not_Stopped:
  "InstancePhaseStopped \<notin> set (phasesSetBy c (snd (handleDeletion c sci)))"
proof -
  have 1: "phasesSetBy c (snd (client_Delete c pod)) = []" for pod
    using writes_client(2)[of c pod] by (simp add: phasesSetBy_def)
  have 2: "phasesSetBy c (snd (client_Update c s)) = []" for s
    using writes_client(3)[of c s] by (simp add: phasesSetBy_def)
  show ?thesis
    unfolding handleDeletion_def Let_def
    by (auto simp: 1 2 phasesSetBy_same split_beta split: sum.splits option.splits if_splits)
qed

lemma client_GetPod_absent: "getIfExists (client_GetPod c k) = Inr None \<Longrightarrow> pods c k = None"
  by (auto simp: client_GetPod_def getIfExists_def split: option.splits sum.splits if_splits)

lemma getIfExists_found:
  "getIfExists (client_GetPod c k) = Inr (Some pod) \<Longrightarrow> pods c k = Some pod"
  by (auto simp: client_GetPod_def getIfExists_def split: option.splits sum.splits if_splits)

lemma client_GetInstance_found: "client_GetInstance c k = Inr sci \<Longrightarrow> instances c k = Some sci"
  by (auto simp: client_GetInstance_def split: option.splits)

text \<open>
  What the guard of \<open>Reconcile\<close> gives: a step sends the phase \<open>Stopped\<close> only when the
  Instance is not to run, the pod under the provider name is Ready, and there is no pod
  under the name \<open>Reconcile\<close> itself looks the consumer up with (\<open><name>-consumer\<close>); the
  step changes no pod.
\<close>

lemma Reconcile_Stopped_guard:
  assumes st: "InstancePhaseStopped \<in> set (phasesSetBy c (snd (Reconcile cfg c req)))"
  shows "\<exists>sci providerPod. instances c req = Some sci \<and> \<not> Running (sciSpec sci)
           \<and> pods c (reconcile_providerPodName sci) = Some providerPod \<and> isPodReady providerPod
           \<and> pods c (reconcile_consumerPodName sci) = None
           \<and> pods (snd (Reconcile cfg c req)) = pods c"
proof (cases "client_GetInstance c req")
  case (Inl err)
  then show ?thesis using st by (auto simp: Reconcile_def phasesSetBy_same split: if_splits)
next
  case gi: (Inr sci)
  note inst = client_GetInstance_found[OF gi]
  show ?thesis
  proof (cases "metaDeleting (sciMeta sci)")
    case True
    then show ?thesis
      using st gi handleDeletion_not_Stopped[of c sci] by (simp add: Reconcile_def)
  next
    case nd: False
    show ?thesis
    proof (cases "SCIFinalizerName \<in> set (metaFinalizers (sciMeta sci))")
      case False
      let ?sci1 = "sci\<lparr>sciMeta := (sciMeta sci)
                          \<lparr>metaFinalizers := metaFinalizers (sciMeta sci) @ [SCIFinalizerName]\<rparr>\<rparr>"
      have "phasesSetBy c (snd (client_Update c ?sci1)) = []"
        using writes_client(3)[of c ?sci1] by (simp add: phasesSetBy_def)
      then show ?thesis using st gi nd False
        by (simp add: Reconcile_def Let_def split_beta split: option.splits)
    next
      case fin: True
      show ?thesis
      proof (cases "getIfExists (client_GetPod c (reconcile_providerPodName sci))")
        case (Inl err)
        then show ?thesis using st gi nd fin by (simp add: Reconcile_def phasesSetBy_same)
      next
        case pg: (Inr provider)
        show ?thesis
        proof (cases "getIfExists (client_GetPod c (reconcile_consumerPodName sci))")
          case (Inl err)
          then show ?thesis
            using st gi nd fin pg by (simp add: Reconcile_def phasesSetBy_same)
        next
          case cg: (Inr consumer)
          show ?thesis
          proof (cases provider)
            case None
            then show ?thesis
              using st gi nd fin pg cg createProviderPod_not_Stopped[of c cfg sci]
              by (simp add: Reconcile_def)
          next
            case sp: (Some providerPod)
            note pp = getIfExists_found[OF pg[unfolded sp]]
            show ?thesis
            proof (cases "isPodReady providerPod")
              case False
              have "InstancePhaseProviderStarting \<noteq> InstancePhaseStopped"
                by (simp add: InstancePhaseProviderStarting_def InstancePhaseStopped_def)
              from updatePhase_not_Stopped[OF this, of c sci
                  "''Waiting for provider pod to be ready''"]
              show ?thesis using st gi nd fin pg cg sp False
                by (simp add: Reconcile_def split_beta)
            next
              case rdy: True
              define sci2 where "sci2 = sci\<lparr>sciStatus := (sciStatus sci)
                                 \<lparr>StatusNodeName := NodeName (podSpec providerPod),
                                  HostPath := filepath_Join [GetHostPath sci, ''rootfs''],
                                  ProviderPodName := metaName (podMeta providerPod),
                                  ProviderPodUID := metaUID (podMeta providerPod)\<rparr>\<rparr>"
              have run2: "Running (sciSpec sci2) = Running (sciSpec sci)" by (simp add: sci2_def)
              show ?thesis
              proof (cases "Running (sciSpec sci)")
                case False
                show ?thesis
                proof (cases consumer)
                  case None
                  note absent = client_GetPod_absent[OF cg[unfolded None]]
                  have "pods (snd (snd (updatePhase c sci2 InstancePhaseStopped
                          ''Consumer stopped, provider maintaining filesystem''))) = pods c"
                    using updatePhase_effect(3)[of c sci2 InstancePhaseStopped
                          "''Consumer stopped, provider maintaining filesystem''"]
                    by (cases "updatePhase c sci2 InstancePhaseStopped
                          ''Consumer stopped, provider maintaining filesystem''") auto
                  then have "pods (snd (Reconcile cfg c req)) = pods c"
                    using gi nd fin pg cg sp rdy False None run2
                    by (simp add: Reconcile_def Let_def split_beta sci2_def)
                  then show ?thesis using inst False pp rdy absent by blast
                next
                  case (Some consumerPod)
                  obtain r c1 where del: "client_Delete c consumerPod = (r, c1)"
                    by (cases "client_Delete c consumerPod")
                  have w: "writes c1 = writes c @ [WroteDeletePod (podKey consumerPod)]"
                    using writes_client(2)[of c consumerPod] del by simp
                  have ne: "InstancePhaseStopping \<noteq> InstancePhaseStopped"
                    by (simp add: InstancePhaseStopping_def InstancePhaseStopped_def)
                  have a: "InstancePhaseStopped \<notin> set (phasesSetBy c
                            (snd (snd (updatePhase c1 sci2 InstancePhaseStopping
                                         ''Stopping consumer pod''))))"
                    using updatePhase_later_not_Stopped[OF ne w] by simp
                  have b: "InstancePhaseStopped \<notin> set (phasesSetBy c c1)"
                    using w by (simp add: phasesSetBy_def)
                  have "InstancePhaseStopped \<notin> set (phasesSetBy c (snd (Reconcile cfg c req)))"
                    using gi nd fin pg cg sp rdy False Some run2 del a b
                    by (simp add: Reconcile_def Let_def split_beta sci2_def split: option.splits)
                  then show ?thesis using st by simp
                qed
              next
                case True
                have "InstancePhaseStopped \<notin> set (phasesSetBy c (snd (Reconcile cfg c req)))"
                proof (cases consumer)
                  case None
                  have ne: "InstancePhaseProviderReady \<noteq> InstancePhaseStopped"
                    by (simp add: InstancePhaseProviderReady_def InstancePhaseStopped_def)
                  show ?thesis
                    using gi nd fin pg cg sp rdy True None run2
                    by (simp add: Reconcile_def Let_def split_beta sci2_def
                          updatePhase_not_Stopped[OF ne] createConsumerPod_not_Stopped)
                next
                  case (Some consumerPod)
                  have ne: "InstancePhaseFailed \<noteq> InstancePhaseStopped"
                    "InstancePhaseConsumerStarting \<noteq> InstancePhaseStopped"
                    "InstancePhaseRunning \<noteq> InstancePhaseStopped"
                    by (simp_all add: InstancePhaseFailed_def InstancePhaseConsumerStarting_def
                        InstancePhaseRunning_def InstancePhaseStopped_def)
                  show ?thesis
                    using gi nd fin pg cg sp rdy True Some run2
                    by (simp add: Reconcile_def Let_def split_beta sci2_def
                          updatePhase_not_Stopped[OF ne(1)] updatePhase_not_Stopped[OF ne(2)]
                          updatePhase_not_Stopped[OF ne(3)])
                qed
                then show ?thesis using st by simp
              qed
            qed
          qed
        qed
      qed
    qed
  qed
qed

text \<open>The names the builders give, and the name \<open>Reconcile\<close> looks the consumer up with.\<close>

lemma builder_pod_names:
  "metaName (podMeta (ProviderPodBuilder_Build cfg sci)) = metaName (sciMeta sci) @ ''-provider''"
  "ConsumerPodBuilder_Build cfg sci nodeName = Inr pod
     \<Longrightarrow> metaName (podMeta pod) = metaName (sciMeta sci)"
  "podKey (ProviderPodBuilder_Build cfg sci) = reconcile_providerPodName sci"
  "ConsumerPodBuilder_Build cfg sci nodeName = Inr pod \<Longrightarrow> podKey pod \<noteq> reconcile_consumerPodName sci"
  by (auto simp: ProviderPodBuilder_Build_def ConsumerPodBuilder_Build_def Let_def
        consumerPodName_def podKey_def reconcile_providerPodName_def reconcile_consumerPodName_def
      split: list.splits)


subsection \<open>Pod names (C1)\<close>


subsection \<open>Status projection of the Workload controller (C7)\<close>

text \<open>
  C7. \<open>updateStatusFromInstance\<close> projects the phase of the Instance on the phase of the
  Workload and on its Ready condition by the table: Pending and ProviderStarting give
  Pending with the condition False, reason Pending; ProviderReady and ConsumerStarting
  give ProviderReady with False, ProviderReady; Running gives Running with True, Running;
  Stopping and Stopped give Stopped with False, Stopped; Failed gives Failed with False,
  Failed and the Instance's message; every other value gives Pending with the condition
  Unknown, reason Unknown.
\<close>

theorem updateStatusFromInstance_projection:
  "case updateStatusFromInstance updateErr sc sci of
     (res, sc') \<Rightarrow>
       (\<exists>cond. FindStatusCondition (wConditions (scStatus sc')) ConditionTypeReady = Some cond
          \<and> (let p = Phase (sciStatus sci);
                  projected = (wPhase (scStatus sc'), condStatus cond, condReason cond)
              in (p = InstancePhasePending \<or> p = InstancePhaseProviderStarting
                    \<longrightarrow> projected = (PhasePending, ConditionFalse, ''Pending''))
               \<and> (p = InstancePhaseProviderReady \<or> p = InstancePhaseConsumerStarting
                    \<longrightarrow> projected = (PhaseProviderReady, ConditionFalse, ''ProviderReady''))
               \<and> (p = InstancePhaseRunning
                    \<longrightarrow> projected = (PhaseRunning, ConditionTrue, ''Running''))
               \<and> (p = InstancePhaseStopping \<or> p = InstancePhaseStopped
                    \<longrightarrow> projected = (PhaseStopped, ConditionFalse, ''Stopped''))
               \<and> (p = InstancePhaseFailed
                    \<longrightarrow> projected = (PhaseFailed, ConditionFalse, ''Failed'')
                        \<and> condMessage cond = StatusMessage (sciStatus sci))
               \<and> (p \<notin> {InstancePhasePending, InstancePhaseProviderStarting,
                         InstancePhaseProviderReady, InstancePhaseConsumerStarting,
                         InstancePhaseRunning, InstancePhaseStopping, InstancePhaseStopped,
                         InstancePhaseFailed}
                    \<longrightarrow> projected = (PhasePending, ConditionUnknown, ''Unknown''))))"
proof -
  define p where "p = Phase (sciStatus sci)"
  define row where "row =
            (if p = InstancePhasePending \<or> p = InstancePhaseProviderStarting
               then (PhasePending, ConditionFalse, ''Pending'', ''Instance is starting up'')
             else if p = InstancePhaseProviderReady \<or> p = InstancePhaseConsumerStarting
               then (PhaseProviderReady, ConditionFalse, ''ProviderReady'',
                     ''Provider is ready, consumer is starting'')
             else if p = InstancePhaseRunning
               then (PhaseRunning, ConditionTrue, ''Running'', ''Container is running'')
             else if p = InstancePhaseStopping \<or> p = InstancePhaseStopped
               then (PhaseStopped, ConditionFalse, ''Stopped'',
                     ''Container is stopped, filesystem preserved'')
             else if p = InstancePhaseFailed
               then (PhaseFailed, ConditionFalse, ''Failed'', StatusMessage (sciStatus sci))
             else (PhasePending, ConditionUnknown, ''Unknown'', ''Unknown state''))"
  obtain phase conditionStatus reason message
    where row_eq: "row = (phase, conditionStatus, reason, message)"
    by (cases row) auto
  define n where "n = \<lparr>condType = ConditionTypeReady, condStatus = conditionStatus,
      condReason = reason, condMessage = message,
      condObservedGeneration = metaGeneration (scMeta sc)\<rparr>"
  obtain res sc' where u: "updateStatusFromInstance updateErr sc sci = (res, sc')"
    by (cases "updateStatusFromInstance updateErr sc sci")
  have st: "wPhase (scStatus sc') = phase
      \<and> wConditions (scStatus sc') = SetStatusCondition (wConditions (scStatus sc)) n"
    using u row_eq unfolding updateStatusFromInstance_def Let_def
      p_def[symmetric] row_def[symmetric] n_def
    by (auto split: option.splits if_splits)
  have f: "FindStatusCondition (wConditions (scStatus sc')) ConditionTypeReady = Some n"
    using st Find_after_Set[of "wConditions (scStatus sc)" n] by (simp add: n_def)
  have distinct:
    "distinct [InstancePhasePending, InstancePhaseProviderStarting,
               InstancePhaseProviderReady, InstancePhaseConsumerStarting,
               InstancePhaseRunning, InstancePhaseStopping, InstancePhaseStopped,
               InstancePhaseFailed]"
    by (simp add: InstancePhasePending_def InstancePhaseProviderStarting_def
        InstancePhaseProviderReady_def InstancePhaseConsumerStarting_def
        InstancePhaseRunning_def InstancePhaseStopping_def InstancePhaseStopped_def
        InstancePhaseFailed_def)
  have rows:
    "(p = InstancePhasePending \<or> p = InstancePhaseProviderStarting
        \<longrightarrow> (phase, conditionStatus, reason) = (PhasePending, ConditionFalse, ''Pending''))
     \<and> (p = InstancePhaseProviderReady \<or> p = InstancePhaseConsumerStarting
        \<longrightarrow> (phase, conditionStatus, reason)
              = (PhaseProviderReady, ConditionFalse, ''ProviderReady''))
     \<and> (p = InstancePhaseRunning
        \<longrightarrow> (phase, conditionStatus, reason) = (PhaseRunning, ConditionTrue, ''Running''))
     \<and> (p = InstancePhaseStopping \<or> p = InstancePhaseStopped
        \<longrightarrow> (phase, conditionStatus, reason) = (PhaseStopped, ConditionFalse, ''Stopped''))
     \<and> (p = InstancePhaseFailed
        \<longrightarrow> (phase, conditionStatus, reason) = (PhaseFailed, ConditionFalse, ''Failed'')
            \<and> message = StatusMessage (sciStatus sci))
     \<and> (p \<notin> {InstancePhasePending, InstancePhaseProviderStarting,
                         InstancePhaseProviderReady, InstancePhaseConsumerStarting,
                         InstancePhaseRunning, InstancePhaseStopping, InstancePhaseStopped,
                         InstancePhaseFailed}
        \<longrightarrow> (phase, conditionStatus, reason) = (PhasePending, ConditionUnknown, ''Unknown''))"
    using row_eq distinct unfolding row_def by (auto split: if_splits)
  show ?thesis
    unfolding u using f st rows by (simp add: Let_def n_def p_def)
qed

text \<open>The table row by row, and a phase that is not in it, at the example Workload.\<close>

theorem updateStatusFromInstance_projection_witness:
  "wPhase (scStatus (snd (updateStatusFromInstance None example_workload
       (instanceInPhase InstancePhaseProviderStarting)))) = PhasePending
   \<and> wPhase (scStatus (snd (updateStatusFromInstance None example_workload
       (instanceInPhase InstancePhaseConsumerStarting)))) = PhaseProviderReady
   \<and> wPhase (scStatus (snd (updateStatusFromInstance None example_workload
       (instanceInPhase InstancePhaseRunning)))) = PhaseRunning
   \<and> wPhase (scStatus (snd (updateStatusFromInstance None example_workload
       (instanceInPhase InstancePhaseStopping)))) = PhaseStopped
   \<and> wPhase (scStatus (snd (updateStatusFromInstance None example_workload
       (instanceInPhase InstancePhaseFailed)))) = PhaseFailed
   \<and> wPhase (scStatus (snd (updateStatusFromInstance None example_workload
       (instanceInPhase ''Terminating'')))) = PhasePending"
proof -
  have p: "Phase (sciStatus (instanceInPhase x)) = x" for x
    by (simp add: instanceInPhase_def)
  have d: "''Terminating'' \<notin> {InstancePhasePending, InstancePhaseProviderStarting,
                         InstancePhaseProviderReady, InstancePhaseConsumerStarting,
                         InstancePhaseRunning, InstancePhaseStopping, InstancePhaseStopped,
                         InstancePhaseFailed}"
    by (simp add: InstancePhasePending_def InstancePhaseProviderStarting_def
        InstancePhaseProviderReady_def InstancePhaseConsumerStarting_def
        InstancePhaseRunning_def InstancePhaseStopping_def InstancePhaseStopped_def
        InstancePhaseFailed_def)
  have 1: "wPhase (scStatus (snd (updateStatusFromInstance None example_workload
       (instanceInPhase InstancePhaseProviderStarting)))) = PhasePending"
    using updateStatusFromInstance_projection[where updateErr = None and sc = example_workload
        and sci = "instanceInPhase InstancePhaseProviderStarting"]
    by (clarsimp simp: p split_beta Let_def)
  have 2: "wPhase (scStatus (snd (updateStatusFromInstance None example_workload
       (instanceInPhase InstancePhaseConsumerStarting)))) = PhaseProviderReady"
    using updateStatusFromInstance_projection[where updateErr = None and sc = example_workload
        and sci = "instanceInPhase InstancePhaseConsumerStarting"]
    by (clarsimp simp: p split_beta Let_def)
  have 3: "wPhase (scStatus (snd (updateStatusFromInstance None example_workload
       (instanceInPhase InstancePhaseRunning)))) = PhaseRunning"
    using updateStatusFromInstance_projection[where updateErr = None and sc = example_workload
        and sci = "instanceInPhase InstancePhaseRunning"]
    by (clarsimp simp: p split_beta Let_def)
  have 4: "wPhase (scStatus (snd (updateStatusFromInstance None example_workload
       (instanceInPhase InstancePhaseStopping)))) = PhaseStopped"
    using updateStatusFromInstance_projection[where updateErr = None and sc = example_workload
        and sci = "instanceInPhase InstancePhaseStopping"]
    by (clarsimp simp: p split_beta Let_def)
  have 5: "wPhase (scStatus (snd (updateStatusFromInstance None example_workload
       (instanceInPhase InstancePhaseFailed)))) = PhaseFailed"
    using updateStatusFromInstance_projection[where updateErr = None and sc = example_workload
        and sci = "instanceInPhase InstancePhaseFailed"]
    by (clarsimp simp: p split_beta Let_def)
  have 6: "wPhase (scStatus (snd (updateStatusFromInstance None example_workload
       (instanceInPhase ''Terminating'')))) = PhasePending"
    using updateStatusFromInstance_projection[where updateErr = None and sc = example_workload
        and sci = "instanceInPhase ''Terminating''"] d
    by (clarsimp simp: p split_beta Let_def)
  show ?thesis using 1 2 3 4 5 6 by simp
qed

subsection \<open>The Ready condition of the Instance controller (C8)\<close>

text \<open>
  C8. For every phase that \<open>updatePhase\<close> writes, the Instance it sends carries that phase
  and a Ready condition whose status is True exactly when the phase is Running, with the
  reason \<open>Running\<close> then; whose status is False with the reason \<open>Failed\<close> when the phase is
  Failed; and whose status is False with the phase name as the reason for every other
  phase.
\<close>

theorem updatePhase_ready_condition:
  "case updatePhase c sci phase message of
     (res, sci', c') \<Rightarrow>
       Phase (sciStatus sci') = phase
       \<and> writes c' = writes c @ [WroteInstanceStatus sci']
       \<and> (\<exists>cond. FindStatusCondition (Conditions (sciStatus sci')) ConditionTypeReady = Some cond
             \<and> (condStatus cond = ConditionTrue \<longleftrightarrow> phase = InstancePhaseRunning)
             \<and> (phase = InstancePhaseRunning \<longrightarrow> condReason cond = ''Running'')
             \<and> (phase = InstancePhaseFailed
                  \<longrightarrow> condStatus cond = ConditionFalse \<and> condReason cond = ''Failed'')
             \<and> (phase \<noteq> InstancePhaseRunning \<and> phase \<noteq> InstancePhaseFailed
                  \<longrightarrow> condStatus cond = ConditionFalse \<and> condReason cond = phase))"
proof -
  obtain res sci' c' where u: "updatePhase c sci phase message = (res, sci', c')"
    by (cases "updatePhase c sci phase message")
  note e = updatePhase_effect[OF u]
  have "InstancePhaseRunning \<noteq> InstancePhaseFailed"
    by (simp add: InstancePhaseRunning_def InstancePhaseFailed_def)
  then show ?thesis
    unfolding u using e(1) e(2) e(4)
    by (auto simp: ConditionTrue_def ConditionFalse_def)
qed

text \<open>The three cases at the example Instance: Running, Failed, and Stopping.\<close>

theorem updatePhase_ready_condition_witness:
  "map_option (\<lambda>cond. (condStatus cond, condReason cond))
     (FindStatusCondition
        (Conditions (sciStatus (fst (snd (updatePhase example_cluster example_instance
           InstancePhaseRunning ''All pods running''))))) ConditionTypeReady)
     = Some (ConditionTrue, ''Running'')
   \<and> map_option (\<lambda>cond. (condStatus cond, condReason cond))
     (FindStatusCondition
        (Conditions (sciStatus (fst (snd (updatePhase example_cluster example_instance
           InstancePhaseFailed ''Consumer pod failed: Unknown''))))) ConditionTypeReady)
     = Some (ConditionFalse, ''Failed'')
   \<and> map_option (\<lambda>cond. (condStatus cond, condReason cond))
     (FindStatusCondition
        (Conditions (sciStatus (fst (snd (updatePhase example_cluster example_instance
           InstancePhaseStopping ''Stopping consumer pod''))))) ConditionTypeReady)
     = Some (ConditionFalse, InstancePhaseStopping)"
proof -
  have d: "InstancePhaseStopping \<noteq> InstancePhaseRunning"
    "InstancePhaseStopping \<noteq> InstancePhaseFailed"
    "InstancePhaseFailed \<noteq> InstancePhaseRunning"
    by (simp_all add: InstancePhaseStopping_def InstancePhaseRunning_def InstancePhaseFailed_def)
  show ?thesis
    using updatePhase_ready_condition[where c = example_cluster and sci = example_instance
        and phase = InstancePhaseRunning and message = "''All pods running''"]
      updatePhase_ready_condition[where c = example_cluster and sci = example_instance
        and phase = InstancePhaseFailed and message = "''Consumer pod failed: Unknown''"]
      updatePhase_ready_condition[where c = example_cluster and sci = example_instance
        and phase = InstancePhaseStopping and message = "''Stopping consumer pod''"]
      d
    by (auto simp: split_beta)
qed

subsection \<open>The phase Stopped (C9)\<close>


subsection \<open>The consumer builder never fails (C10)\<close>




end
